theory Spec2Isabelle
  imports Main "HOL-Library.Word"
begin

section \<open>Common types\<close>

text \<open>
  \<^verbatim>\<open>esp_err_t\<close> is the error code every operation of the firmware returns. The codes
  the sources name are constructors; \<open>ESP_ERR_OTHER c\<close> stands for any further
  non-zero code \<open>c\<close> an external driver may report.
\<close>

datatype esp_err_t =
    ESP_OK
  | ESP_FAIL
  | ESP_ERR_NVS_NOT_FOUND
  | ESP_ERR_NVS_TYPE_MISMATCH
  | ESP_ERR_NVS_READ_ONLY
  | ESP_ERR_NVS_INVALID_HANDLE
  | ESP_ERR_NVS_INVALID_LENGTH
  | ESP_ERR_OTHER nat

section \<open>Provisioner (provisioner.cpp)\<close>

text \<open>
  The events \<^verbatim>\<open>Provisioner::EventHandler\<close> is registered for: an event base together
  with the event id the handler switches on. Ids the handler sends to its
  \<^verbatim>\<open>default\<close> branch are collected in the \<open>_OTHER\<close> constructors.
\<close>

datatype wifi_prov_cb_event_t =
    WIFI_PROV_START
  | WIFI_PROV_CRED_RECV
  | WIFI_PROV_CRED_FAIL
  | WIFI_PROV_CRED_SUCCESS
  | WIFI_PROV_END
  | WIFI_PROV_OTHER

datatype wifi_event_t =
    WIFI_EVENT_STA_START
  | WIFI_EVENT_STA_DISCONNECTED
  | WIFI_EVENT_OTHER

datatype ip_event_t =
    IP_EVENT_STA_GOT_IP
  | IP_EVENT_OTHER

datatype prov_event =
    WIFI_PROV_EVENT wifi_prov_cb_event_t
  | WIFI_EVENT wifi_event_t
  | IP_EVENT ip_event_t
  | PROTOCOMM_TRANSPORT_BLE_EVENT
  | PROTOCOMM_SECURITY_SESSION_EVENT
  | OTHER_EVENT_BASE

text \<open>
  The provisioning manager of the vendor SDK keeps the state machine and the stored
  credentials. Its states are those of the specification's \<open>ProvisioningState\<close>.
\<close>

datatype ProvisioningState =
    Idle
  | AwaitingCredentials
  | Connecting
  | Connected
  | CredentialFailure
  | Exhausted

record wifi_prov_mgr =
  sm_state :: ProvisioningState
  credentials :: "(string \<times> string) option"
  initialised :: bool

text \<open>
  Modelled from the spec: \<^verbatim>\<open>wifi_prov_mgr_reset_sm_state_on_failure\<close> is a function of the
  vendor SDK, not of the repository. The specification says of the step that calls it:
  "stored credentials are discarded and the state machine resets to await fresh
  credentials".
\<close>

definition wifi_prov_mgr_reset_sm_state_on_failure :: "wifi_prov_mgr \<Rightarrow> wifi_prov_mgr" where
  "wifi_prov_mgr_reset_sm_state_on_failure m =
     m\<lparr>sm_state := AwaitingCredentials, credentials := None\<rparr>"

text \<open>
  Modelled from the spec: \<^verbatim>\<open>wifi_prov_mgr_deinit\<close> of the vendor SDK releases the
  manager once provisioning is finished.
\<close>

definition wifi_prov_mgr_deinit :: "wifi_prov_mgr \<Rightarrow> wifi_prov_mgr" where
  "wifi_prov_mgr_deinit m = m\<lparr>initialised := False\<rparr>"

text \<open>
  The calls the handler makes into the drivers, in the order they are made:
  \<^verbatim>\<open>esp_wifi_connect()\<close>, \<^verbatim>\<open>led_->Flash(200, 0, 1, kRed)\<close> and
  \<^verbatim>\<open>xEventGroupSetBits(wifi_event_group_, kWifiConnectedEvent)\<close>.
\<close>

datatype prov_call =
    Call_esp_wifi_connect
  | Call_led_Flash_red
  | Call_xEventGroupSetBits

text \<open>
  The fields of \<^verbatim>\<open>class Provisioner\<close> the handler reads or writes. \<open>retries\<close> (the
  member \<^verbatim>\<open>retries_\<close>) is a C++ \<^verbatim>\<open>int\<close>, a word of 32 bits read as two's complement:
  \<^verbatim>\<open>retries_++\<close> wraps around at the greatest value, and the comparison with
  \<open>kMaxRetriesCount\<close> is the signed one. \<open>prov_led\<close> says whether the LED pointer is
  non-null.
\<close>

record Provisioner =
  retries :: "32 word"
  prov_led :: bool
  mgr :: wifi_prov_mgr
  driver_calls :: "prov_call list"

definition kMaxRetriesCount :: int where
  "kMaxRetriesCount = 5"

fun Provisioner_EventHandler :: "Provisioner \<Rightarrow> prov_event \<Rightarrow> Provisioner" where
  "Provisioner_EventHandler p (WIFI_PROV_EVENT WIFI_PROV_START) = p"
| "Provisioner_EventHandler p (WIFI_PROV_EVENT WIFI_PROV_CRED_RECV) = p"
| "Provisioner_EventHandler p (WIFI_PROV_EVENT WIFI_PROV_CRED_FAIL) =
     (let p1 = p\<lparr>retries := retries p + 1\<rparr>
      in if sint (retries p1) \<ge> kMaxRetriesCount
         then p1\<lparr>mgr := wifi_prov_mgr_reset_sm_state_on_failure (mgr p1), retries := 0\<rparr>
         else p1)"
| "Provisioner_EventHandler p (WIFI_PROV_EVENT WIFI_PROV_CRED_SUCCESS) = p\<lparr>retries := 0\<rparr>"
| "Provisioner_EventHandler p (WIFI_PROV_EVENT WIFI_PROV_END) = p\<lparr>mgr := wifi_prov_mgr_deinit (mgr p)\<rparr>"
| "Provisioner_EventHandler p (WIFI_PROV_EVENT WIFI_PROV_OTHER) = p"
| "Provisioner_EventHandler p (WIFI_EVENT WIFI_EVENT_STA_START) =
     p\<lparr>driver_calls := driver_calls p @ [Call_esp_wifi_connect]\<rparr>"
| "Provisioner_EventHandler p (WIFI_EVENT WIFI_EVENT_STA_DISCONNECTED) =
     p\<lparr>driver_calls := driver_calls p
          @ (if prov_led p then [Call_led_Flash_red] else []) @ [Call_esp_wifi_connect]\<rparr>"
| "Provisioner_EventHandler p (WIFI_EVENT WIFI_EVENT_OTHER) = p"
| "Provisioner_EventHandler p (IP_EVENT IP_EVENT_STA_GOT_IP) =
     p\<lparr>driver_calls := driver_calls p @ [Call_xEventGroupSetBits]\<rparr>"
| "Provisioner_EventHandler p (IP_EVENT IP_EVENT_OTHER) = p"
| "Provisioner_EventHandler p PROTOCOMM_TRANSPORT_BLE_EVENT = p"
| "Provisioner_EventHandler p PROTOCOMM_SECURITY_SESSION_EVENT = p"
| "Provisioner_EventHandler p OTHER_EVENT_BASE = p"

text \<open>The event loop delivers events to the handler one after the other.\<close>

fun Provisioner_deliver :: "Provisioner \<Rightarrow> prov_event list \<Rightarrow> Provisioner" where
  "Provisioner_deliver p [] = p"
| "Provisioner_deliver p (e # es) = Provisioner_deliver (Provisioner_EventHandler p e) es"

section \<open>The double register of \<^verbatim>\<open>SetInt\<close> and \<^verbatim>\<open>GetInt\<close>\<close>

text \<open>
  \<^verbatim>\<open>NvsHandle::SetInt\<close> and \<^verbatim>\<open>NvsHandle::GetInt\<close> pass every integer through a C++
  \<^verbatim>\<open>double\<close>. Only integers travel on these paths, so a double is represented by the
  integer it holds. Not every integer is a double: the format keeps 53 significant bits,
  and the conversion of an integer rounds to the nearest double, ties to the even
  significand. \<open>bit_length n\<close> is the number of binary digits of \<open>n\<close>.
\<close>

type_synonym double = int

fun bit_length :: "nat \<Rightarrow> nat" where
  "bit_length n = (if n = 0 then 0 else Suc (bit_length (n div 2)))"

declare bit_length.simps [simp del]

definition double_of_nat :: "nat \<Rightarrow> nat" where
  "double_of_nat n =
     (if n < 2 ^ 53 then n
      else let e = bit_length n - 53;
               q = n div 2 ^ e;
               r = n mod 2 ^ e;
               half = 2 ^ (e - 1)
           in (if r > half \<or> (r = half \<and> odd q) then q + 1 else q) * 2 ^ e)"

definition double_of_int :: "int \<Rightarrow> double" where
  "double_of_int i = (if i < 0 then - int (double_of_nat (nat (- i))) else int (double_of_nat (nat i)))"

text \<open>
  The implicit conversion of the double argument to the integer type of the
  \<^verbatim>\<open>nvs_set_*\<close> parameter. C++ leaves the conversion undefined when the value does not
  fit the destination type: \<open>None\<close>.
\<close>

definition double_to_unsigned :: "double \<Rightarrow> 'a::len word option" where
  "double_to_unsigned d =
     (if 0 \<le> d \<and> d < 2 ^ LENGTH('a) then Some (word_of_int d) else None)"

definition double_to_signed :: "double \<Rightarrow> 'a::len word option" where
  "double_to_signed d =
     (if - (2 ^ (LENGTH('a) - 1)) \<le> d \<and> d < 2 ^ (LENGTH('a) - 1)
      then Some (word_of_int d) else None)"

section \<open>The storage library behind \<^verbatim>\<open>NvsHandle\<close>\<close>

datatype nvs_type_t =
    NVS_TYPE_U8
  | NVS_TYPE_I8
  | NVS_TYPE_U16
  | NVS_TYPE_I16
  | NVS_TYPE_U32
  | NVS_TYPE_I32
  | NVS_TYPE_U64
  | NVS_TYPE_I64
  | NVS_TYPE_STR
  | NVS_TYPE_BLOB
  | NVS_TYPE_ANY

datatype nvs_open_mode_t = NVS_READONLY | NVS_READWRITE

text \<open>An entry of the store: its type tag together with the value of that type.\<close>

datatype nvs_item =
    Item_U8 "8 word"
  | Item_I8 "8 word"
  | Item_U16 "16 word"
  | Item_I16 "16 word"
  | Item_U32 "32 word"
  | Item_I32 "32 word"
  | Item_U64 "64 word"
  | Item_I64 "64 word"
  | Item_STR string
  | Item_BLOB "8 word list"

fun item_type :: "nvs_item \<Rightarrow> nvs_type_t" where
  "item_type (Item_U8 _) = NVS_TYPE_U8"
| "item_type (Item_I8 _) = NVS_TYPE_I8"
| "item_type (Item_U16 _) = NVS_TYPE_U16"
| "item_type (Item_I16 _) = NVS_TYPE_I16"
| "item_type (Item_U32 _) = NVS_TYPE_U32"
| "item_type (Item_I32 _) = NVS_TYPE_I32"
| "item_type (Item_U64 _) = NVS_TYPE_U64"
| "item_type (Item_I64 _) = NVS_TYPE_I64"
| "item_type (Item_STR _) = NVS_TYPE_STR"
| "item_type (Item_BLOB _) = NVS_TYPE_BLOB"

text \<open>The calls into the library that change it, logged in the order they are made.\<close>

datatype nvs_call =
    Call_nvs_open string nvs_open_mode_t
  | Call_nvs_close nat
  | Call_nvs_set nat string
  | Call_nvs_commit nat
  | Call_nvs_erase_key nat string
  | Call_nvs_erase_all nat

text \<open>
  Modelled from the spec: the \<^verbatim>\<open>nvs_*\<close> functions belong to the vendor SDK, not to the
  repository; \<^verbatim>\<open>NvsHandle\<close> only forwards to them. The specification describes the
  store as entries "identified by (namespace: string, key: string; together unique)"
  with a type tag and a value; "all pending mutations for a namespace session become
  durable only on an explicit Commit; EraseKey/EraseAll remove entries immediately";
  "reading with a mismatched type must fail"; Open gives "handle | NotFound/IOError".

  \<open>stored\<close> is what the medium holds and survives a restart, \<open>view\<close> is what the open
  handles read and write (the medium together with the writes not yet committed),
  \<open>namespaces\<close> are the namespaces that exist, \<open>open_handles\<close> maps each open handle to
  its namespace and mode, \<open>handle_count\<close> numbers the handles (0 is never a handle) and
  \<open>nvs_log\<close> is the log of the calls.
\<close>

record nvs_flash =
  stored :: "string \<times> string \<rightharpoonup> nvs_item"
  view :: "string \<times> string \<rightharpoonup> nvs_item"
  namespaces :: "string set"
  open_handles :: "nat \<rightharpoonup> string \<times> nvs_open_mode_t"
  handle_count :: nat
  nvs_log :: "nvs_call list"

definition nvs_flash_empty :: nvs_flash where
  "nvs_flash_empty =
     \<lparr>stored = Map.empty, view = Map.empty, namespaces = {}, open_handles = Map.empty,
      handle_count = 0, nvs_log = []\<rparr>"

text \<open>Modelled from the spec: a restart keeps the medium and loses everything else.\<close>

definition nvs_restart :: "nvs_flash \<Rightarrow> nvs_flash" where
  "nvs_restart nvs = nvs\<lparr>view := stored nvs, open_handles := Map.empty\<rparr>"

text \<open>
  Modelled from the spec: \<^verbatim>\<open>nvs_open\<close> of the vendor SDK. A namespace comes to exist when
  it is first opened for writing; opening a missing one read-only is "NotFound". The new
  handle is a number that was never a handle before.
\<close>

definition nvs_open :: "string \<Rightarrow> nvs_open_mode_t \<Rightarrow> nvs_flash \<Rightarrow> esp_err_t \<times> nat option \<times> nvs_flash" where
  "nvs_open name_space mode nvs =
     (let nvs1 = nvs\<lparr>nvs_log := nvs_log nvs @ [Call_nvs_open name_space mode]\<rparr>
      in if mode = NVS_READONLY \<and> name_space \<notin> namespaces nvs
         then (ESP_ERR_NVS_NOT_FOUND, None, nvs1)
         else let h = Suc (handle_count nvs)
              in (ESP_OK, Some h,
                  nvs1\<lparr>namespaces := insert name_space (namespaces nvs),
                       open_handles := (open_handles nvs)(h \<mapsto> (name_space, mode)),
                       handle_count := h\<rparr>))"

text \<open>
  Modelled from the spec: \<^verbatim>\<open>nvs_close\<close> of the vendor SDK "releases the handle"; on a
  number that is not an open handle there is nothing to release.
\<close>

definition nvs_close :: "nat \<Rightarrow> nvs_flash \<Rightarrow> nvs_flash" where
  "nvs_close h nvs =
     nvs\<lparr>open_handles := (open_handles nvs)(h := None),
         nvs_log := nvs_log nvs @ [Call_nvs_close h]\<rparr>"

text \<open>
  Modelled from the spec: the lookup every read of the vendor SDK starts with. The handle
  must be open, and the key must have an entry in the handle's namespace.
\<close>

definition nvs_lookup :: "nat \<Rightarrow> string \<Rightarrow> nvs_flash \<Rightarrow> esp_err_t + nvs_item" where
  "nvs_lookup h key nvs =
     (case open_handles nvs h of
        None \<Rightarrow> Inl ESP_ERR_NVS_INVALID_HANDLE
      | Some (ns, mode) \<Rightarrow>
          (case view nvs (ns, key) of
             None \<Rightarrow> Inl ESP_ERR_NVS_NOT_FOUND
           | Some item \<Rightarrow> Inr item))"

text \<open>Modelled from the spec: \<^verbatim>\<open>nvs_find_key\<close> of the vendor SDK reports the entry's type.\<close>

definition nvs_find_key :: "nat \<Rightarrow> string \<Rightarrow> nvs_flash \<Rightarrow> esp_err_t \<times> nvs_type_t option" where
  "nvs_find_key h key nvs =
     (case nvs_lookup h key nvs of
        Inl e \<Rightarrow> (e, None)
      | Inr item \<Rightarrow> (ESP_OK, Some (item_type item)))"

text \<open>
  Modelled from the spec: \<^verbatim>\<open>nvs_get_u8\<close> of the vendor SDK reads an entry of the unsigned 8 bit
  type; an entry of another type is a type mismatch.
\<close>

definition nvs_get_u8 :: "nat \<Rightarrow> string \<Rightarrow> nvs_flash \<Rightarrow> esp_err_t \<times> 8 word option" where
  "nvs_get_u8 h key nvs =
     (case nvs_lookup h key nvs of
        Inl e \<Rightarrow> (e, None)
      | Inr (Item_U8 w) \<Rightarrow> (ESP_OK, Some w)
      | Inr _ \<Rightarrow> (ESP_ERR_NVS_TYPE_MISMATCH, None))"

text \<open>
  Modelled from the spec: \<^verbatim>\<open>nvs_get_i8\<close> of the vendor SDK reads an entry of the signed 8 bit
  type; an entry of another type is a type mismatch.
\<close>

definition nvs_get_i8 :: "nat \<Rightarrow> string \<Rightarrow> nvs_flash \<Rightarrow> esp_err_t \<times> 8 word option" where
  "nvs_get_i8 h key nvs =
     (case nvs_lookup h key nvs of
        Inl e \<Rightarrow> (e, None)
      | Inr (Item_I8 w) \<Rightarrow> (ESP_OK, Some w)
      | Inr _ \<Rightarrow> (ESP_ERR_NVS_TYPE_MISMATCH, None))"

text \<open>
  Modelled from the spec: \<^verbatim>\<open>nvs_get_u16\<close> of the vendor SDK reads an entry of the unsigned 16 bit
  type; an entry of another type is a type mismatch.
\<close>

definition nvs_get_u16 :: "nat \<Rightarrow> string \<Rightarrow> nvs_flash \<Rightarrow> esp_err_t \<times> 16 word option" where
  "nvs_get_u16 h key nvs =
     (case nvs_lookup h key nvs of
        Inl e \<Rightarrow> (e, None)
      | Inr (Item_U16 w) \<Rightarrow> (ESP_OK, Some w)
      | Inr _ \<Rightarrow> (ESP_ERR_NVS_TYPE_MISMATCH, None))"

text \<open>
  Modelled from the spec: \<^verbatim>\<open>nvs_get_i16\<close> of the vendor SDK reads an entry of the signed 16 bit
  type; an entry of another type is a type mismatch.
\<close>

definition nvs_get_i16 :: "nat \<Rightarrow> string \<Rightarrow> nvs_flash \<Rightarrow> esp_err_t \<times> 16 word option" where
  "nvs_get_i16 h key nvs =
     (case nvs_lookup h key nvs of
        Inl e \<Rightarrow> (e, None)
      | Inr (Item_I16 w) \<Rightarrow> (ESP_OK, Some w)
      | Inr _ \<Rightarrow> (ESP_ERR_NVS_TYPE_MISMATCH, None))"

text \<open>
  Modelled from the spec: \<^verbatim>\<open>nvs_get_u32\<close> of the vendor SDK reads an entry of the unsigned 32 bit
  type; an entry of another type is a type mismatch.
\<close>

definition nvs_get_u32 :: "nat \<Rightarrow> string \<Rightarrow> nvs_flash \<Rightarrow> esp_err_t \<times> 32 word option" where
  "nvs_get_u32 h key nvs =
     (case nvs_lookup h key nvs of
        Inl e \<Rightarrow> (e, None)
      | Inr (Item_U32 w) \<Rightarrow> (ESP_OK, Some w)
      | Inr _ \<Rightarrow> (ESP_ERR_NVS_TYPE_MISMATCH, None))"

text \<open>
  Modelled from the spec: \<^verbatim>\<open>nvs_get_i32\<close> of the vendor SDK reads an entry of the signed 32 bit
  type; an entry of another type is a type mismatch.
\<close>

definition nvs_get_i32 :: "nat \<Rightarrow> string \<Rightarrow> nvs_flash \<Rightarrow> esp_err_t \<times> 32 word option" where
  "nvs_get_i32 h key nvs =
     (case nvs_lookup h key nvs of
        Inl e \<Rightarrow> (e, None)
      | Inr (Item_I32 w) \<Rightarrow> (ESP_OK, Some w)
      | Inr _ \<Rightarrow> (ESP_ERR_NVS_TYPE_MISMATCH, None))"

text \<open>
  Modelled from the spec: \<^verbatim>\<open>nvs_get_u64\<close> of the vendor SDK reads an entry of the unsigned 64 bit
  type; an entry of another type is a type mismatch.
\<close>

definition nvs_get_u64 :: "nat \<Rightarrow> string \<Rightarrow> nvs_flash \<Rightarrow> esp_err_t \<times> 64 word option" where
  "nvs_get_u64 h key nvs =
     (case nvs_lookup h key nvs of
        Inl e \<Rightarrow> (e, None)
      | Inr (Item_U64 w) \<Rightarrow> (ESP_OK, Some w)
      | Inr _ \<Rightarrow> (ESP_ERR_NVS_TYPE_MISMATCH, None))"

text \<open>
  Modelled from the spec: \<^verbatim>\<open>nvs_get_i64\<close> of the vendor SDK reads an entry of the signed 64 bit
  type; an entry of another type is a type mismatch.
\<close>

definition nvs_get_i64 :: "nat \<Rightarrow> string \<Rightarrow> nvs_flash \<Rightarrow> esp_err_t \<times> 64 word option" where
  "nvs_get_i64 h key nvs =
     (case nvs_lookup h key nvs of
        Inl e \<Rightarrow> (e, None)
      | Inr (Item_I64 w) \<Rightarrow> (ESP_OK, Some w)
      | Inr _ \<Rightarrow> (ESP_ERR_NVS_TYPE_MISMATCH, None))"

text \<open>
  Modelled from the spec: \<^verbatim>\<open>nvs_get_str\<close> of the vendor SDK. Strings and blobs are
  "length-prefixed byte sequences", read into a buffer of \<open>len\<close> bytes; \<open>None\<close> for the
  buffer is the null pointer, which asks for the size only. A string needs one byte more
  than its characters, for the terminator. The results are the error, the buffer and the
  updated length.
\<close>

definition nvs_get_str ::
  "nat \<Rightarrow> string \<Rightarrow> string option \<Rightarrow> nat \<Rightarrow> nvs_flash \<Rightarrow> esp_err_t \<times> string option \<times> nat" where
  "nvs_get_str h key out_value len nvs =
     (case nvs_lookup h key nvs of
        Inl e \<Rightarrow> (e, out_value, len)
      | Inr (Item_STR s) \<Rightarrow>
          (if out_value = None then (ESP_OK, None, size s + 1)
           else if len < size s + 1 then (ESP_ERR_NVS_INVALID_LENGTH, out_value, size s + 1)
           else (ESP_OK, Some s, size s + 1))
      | Inr _ \<Rightarrow> (ESP_ERR_NVS_TYPE_MISMATCH, out_value, len))"

text \<open>
  Modelled from the spec: \<^verbatim>\<open>nvs_get_blob\<close> of the vendor SDK, as \<^verbatim>\<open>nvs_get_str\<close> without
  the terminator.
\<close>

definition nvs_get_blob ::
  "nat \<Rightarrow> string \<Rightarrow> 8 word list option \<Rightarrow> nat \<Rightarrow> nvs_flash \<Rightarrow> esp_err_t \<times> 8 word list option \<times> nat" where
  "nvs_get_blob h key out_value len nvs =
     (case nvs_lookup h key nvs of
        Inl e \<Rightarrow> (e, out_value, len)
      | Inr (Item_BLOB b) \<Rightarrow>
          (if out_value = None then (ESP_OK, None, size b)
           else if len < size b then (ESP_ERR_NVS_INVALID_LENGTH, out_value, size b)
           else (ESP_OK, Some b, size b))
      | Inr _ \<Rightarrow> (ESP_ERR_NVS_TYPE_MISMATCH, out_value, len))"

text \<open>
  Modelled from the spec: the setters of the vendor SDK. Every \<^verbatim>\<open>nvs_set_*\<close> writes one
  entry into the view, under a read-write handle, "buffered until Commit". The eight
  integer setters, \<^verbatim>\<open>nvs_set_str\<close> and \<^verbatim>\<open>nvs_set_blob\<close> differ in the item only.
\<close>

definition nvs_set :: "nat \<Rightarrow> string \<Rightarrow> nvs_item \<Rightarrow> nvs_flash \<Rightarrow> esp_err_t \<times> nvs_flash" where
  "nvs_set h key item nvs =
     (let nvs1 = nvs\<lparr>nvs_log := nvs_log nvs @ [Call_nvs_set h key]\<rparr>
      in case open_handles nvs h of
           None \<Rightarrow> (ESP_ERR_NVS_INVALID_HANDLE, nvs1)
         | Some (ns, mode) \<Rightarrow>
             (if mode = NVS_READONLY then (ESP_ERR_NVS_READ_ONLY, nvs1)
              else (ESP_OK, nvs1\<lparr>view := (view nvs)((ns, key) \<mapsto> item)\<rparr>)))"

text \<open>
  Modelled from the spec: \<^verbatim>\<open>nvs_commit\<close> of the vendor SDK makes the pending writes of
  the handle's namespace durable.
\<close>

definition nvs_commit :: "nat \<Rightarrow> nvs_flash \<Rightarrow> esp_err_t \<times> nvs_flash" where
  "nvs_commit h nvs =
     (let nvs1 = nvs\<lparr>nvs_log := nvs_log nvs @ [Call_nvs_commit h]\<rparr>
      in case open_handles nvs h of
           None \<Rightarrow> (ESP_ERR_NVS_INVALID_HANDLE, nvs1)
         | Some (ns, mode) \<Rightarrow>
             (ESP_OK,
              nvs1\<lparr>stored := (\<lambda>(n, k). if n = ns then view nvs (n, k) else stored nvs (n, k))\<rparr>))"

text \<open>
  Modelled from the spec: \<^verbatim>\<open>nvs_erase_key\<close> of the vendor SDK. "Erase is not buffered": the
  entry leaves the view and the medium at once.
\<close>

definition nvs_erase_key :: "nat \<Rightarrow> string \<Rightarrow> nvs_flash \<Rightarrow> esp_err_t \<times> nvs_flash" where
  "nvs_erase_key h key nvs =
     (let nvs1 = nvs\<lparr>nvs_log := nvs_log nvs @ [Call_nvs_erase_key h key]\<rparr>
      in case open_handles nvs h of
           None \<Rightarrow> (ESP_ERR_NVS_INVALID_HANDLE, nvs1)
         | Some (ns, mode) \<Rightarrow>
             (if mode = NVS_READONLY then (ESP_ERR_NVS_READ_ONLY, nvs1)
              else if view nvs (ns, key) = None then (ESP_ERR_NVS_NOT_FOUND, nvs1)
              else (ESP_OK,
                    nvs1\<lparr>view := (view nvs)((ns, key) := None),
                         stored := (stored nvs)((ns, key) := None)\<rparr>)))"

text \<open>
  Modelled from the spec: \<^verbatim>\<open>nvs_erase_all\<close> of the vendor SDK removes every entry of the
  handle's namespace, from the view and from the medium at once.
\<close>

definition nvs_erase_all :: "nat \<Rightarrow> nvs_flash \<Rightarrow> esp_err_t \<times> nvs_flash" where
  "nvs_erase_all h nvs =
     (let nvs1 = nvs\<lparr>nvs_log := nvs_log nvs @ [Call_nvs_erase_all h]\<rparr>
      in case open_handles nvs h of
           None \<Rightarrow> (ESP_ERR_NVS_INVALID_HANDLE, nvs1)
         | Some (ns, mode) \<Rightarrow>
             (if mode = NVS_READONLY then (ESP_ERR_NVS_READ_ONLY, nvs1)
              else (ESP_OK,
                    nvs1\<lparr>view := (\<lambda>(n, k). if n = ns then None else view nvs (n, k)),
                         stored := (\<lambda>(n, k). if n = ns then None else stored nvs (n, k))\<rparr>)))"

section \<open>NvsHandle (nvs_config.cpp)\<close>

text \<open>
  \<^verbatim>\<open>class NvsHandle\<close> has one member, \<^verbatim>\<open>handle_\<close>; the constructor sets it to 0. Each
  method is the forwarding call of the source, with the store passed in and returned.
\<close>

record NvsHandle =
  handle :: nat

definition NvsHandle_new :: NvsHandle where
  "NvsHandle_new = \<lparr>handle = 0\<rparr>"

text \<open>\<^verbatim>\<open>nvs_open\<close> writes \<^verbatim>\<open>handle_\<close> only when it succeeds.\<close>

definition NvsHandle_Open ::
  "NvsHandle \<Rightarrow> nvs_flash \<Rightarrow> string \<Rightarrow> nvs_open_mode_t \<Rightarrow> esp_err_t \<times> NvsHandle \<times> nvs_flash" where
  "NvsHandle_Open this nvs name_space mode =
     (case nvs_open name_space mode nvs of
        (err, None, nvs1) \<Rightarrow> (err, this, nvs1)
      | (err, Some h, nvs1) \<Rightarrow> (err, this\<lparr>handle := h\<rparr>, nvs1))"

text \<open>
  \<^verbatim>\<open>Close\<close> tests \<^verbatim>\<open>handle_\<close> and calls \<^verbatim>\<open>nvs_close\<close>; it does not assign \<^verbatim>\<open>handle_\<close>, so
  the object is the same afterwards and only the store is returned. The destructor
  \<^verbatim>\<open>~NvsHandle\<close> is a call of \<^verbatim>\<open>Close\<close>.
\<close>

definition NvsHandle_Close :: "NvsHandle \<Rightarrow> nvs_flash \<Rightarrow> nvs_flash" where
  "NvsHandle_Close this nvs = (if handle this \<noteq> 0 then nvs_close (handle this) nvs else nvs)"

definition NvsHandle_FindKey :: "NvsHandle \<Rightarrow> nvs_flash \<Rightarrow> string \<Rightarrow> esp_err_t \<times> nvs_type_t option" where
  "NvsHandle_FindKey this nvs key = nvs_find_key (handle this) key nvs"

text \<open>
  \<^verbatim>\<open>GetInt\<close> assigns the local integer to \<^verbatim>\<open>*value\<close> whatever \<^verbatim>\<open>nvs_get_*\<close> returned; when
  the read failed the local is uninitialised and the double holds no defined value:
  \<open>None\<close>.
\<close>

definition NvsHandle_GetInt ::
  "NvsHandle \<Rightarrow> nvs_flash \<Rightarrow> string \<Rightarrow> nvs_type_t \<Rightarrow> esp_err_t \<times> double option" where
  "NvsHandle_GetInt this nvs key type =
     (case type of
        NVS_TYPE_U8 \<Rightarrow>
          (case nvs_get_u8 (handle this) key nvs of
             (err, u8) \<Rightarrow> (err, map_option (\<lambda>w. double_of_int (uint w)) u8))
      | NVS_TYPE_I8 \<Rightarrow>
          (case nvs_get_i8 (handle this) key nvs of
             (err, i8) \<Rightarrow> (err, map_option (\<lambda>w. double_of_int (sint w)) i8))
      | NVS_TYPE_U16 \<Rightarrow>
          (case nvs_get_u16 (handle this) key nvs of
             (err, u16) \<Rightarrow> (err, map_option (\<lambda>w. double_of_int (uint w)) u16))
      | NVS_TYPE_I16 \<Rightarrow>
          (case nvs_get_i16 (handle this) key nvs of
             (err, i16) \<Rightarrow> (err, map_option (\<lambda>w. double_of_int (sint w)) i16))
      | NVS_TYPE_U32 \<Rightarrow>
          (case nvs_get_u32 (handle this) key nvs of
             (err, u32) \<Rightarrow> (err, map_option (\<lambda>w. double_of_int (uint w)) u32))
      | NVS_TYPE_I32 \<Rightarrow>
          (case nvs_get_i32 (handle this) key nvs of
             (err, i32) \<Rightarrow> (err, map_option (\<lambda>w. double_of_int (sint w)) i32))
      | NVS_TYPE_U64 \<Rightarrow>
          (case nvs_get_u64 (handle this) key nvs of
             (err, u64) \<Rightarrow> (err, map_option (\<lambda>w. double_of_int (uint w)) u64))
      | NVS_TYPE_I64 \<Rightarrow>
          (case nvs_get_i64 (handle this) key nvs of
             (err, i64) \<Rightarrow> (err, map_option (\<lambda>w. double_of_int (sint w)) i64))
      | _ \<Rightarrow> (ESP_ERR_NVS_TYPE_MISMATCH, None))"

definition NvsHandle_GetString ::
  "NvsHandle \<Rightarrow> nvs_flash \<Rightarrow> string \<Rightarrow> string option \<Rightarrow> nat \<Rightarrow> esp_err_t \<times> string option \<times> nat" where
  "NvsHandle_GetString this nvs key val len = nvs_get_str (handle this) key val len nvs"

definition NvsHandle_GetBlob ::
  "NvsHandle \<Rightarrow> nvs_flash \<Rightarrow> string \<Rightarrow> 8 word list option \<Rightarrow> nat
     \<Rightarrow> esp_err_t \<times> 8 word list option \<times> nat" where
  "NvsHandle_GetBlob this nvs key val len = nvs_get_blob (handle this) key val len nvs"

text \<open>
  \<^verbatim>\<open>SetInt\<close> hands the double to the setter of the requested type; the result is \<open>None\<close>
  where the conversion of the double to that type is undefined.
\<close>

definition NvsHandle_SetInt ::
  "NvsHandle \<Rightarrow> nvs_flash \<Rightarrow> string \<Rightarrow> nvs_type_t \<Rightarrow> double \<Rightarrow> (esp_err_t \<times> nvs_flash) option" where
  "NvsHandle_SetInt this nvs key type val =
     (case type of
        NVS_TYPE_U8 \<Rightarrow> map_option (\<lambda>w. nvs_set (handle this) key (Item_U8 w) nvs) (double_to_unsigned val)
      | NVS_TYPE_I8 \<Rightarrow> map_option (\<lambda>w. nvs_set (handle this) key (Item_I8 w) nvs) (double_to_signed val)
      | NVS_TYPE_U16 \<Rightarrow> map_option (\<lambda>w. nvs_set (handle this) key (Item_U16 w) nvs) (double_to_unsigned val)
      | NVS_TYPE_I16 \<Rightarrow> map_option (\<lambda>w. nvs_set (handle this) key (Item_I16 w) nvs) (double_to_signed val)
      | NVS_TYPE_U32 \<Rightarrow> map_option (\<lambda>w. nvs_set (handle this) key (Item_U32 w) nvs) (double_to_unsigned val)
      | NVS_TYPE_I32 \<Rightarrow> map_option (\<lambda>w. nvs_set (handle this) key (Item_I32 w) nvs) (double_to_signed val)
      | NVS_TYPE_U64 \<Rightarrow> map_option (\<lambda>w. nvs_set (handle this) key (Item_U64 w) nvs) (double_to_unsigned val)
      | NVS_TYPE_I64 \<Rightarrow> map_option (\<lambda>w. nvs_set (handle this) key (Item_I64 w) nvs) (double_to_signed val)
      | _ \<Rightarrow> Some (ESP_ERR_NVS_TYPE_MISMATCH, nvs))"

definition NvsHandle_SetString :: "NvsHandle \<Rightarrow> nvs_flash \<Rightarrow> string \<Rightarrow> string \<Rightarrow> esp_err_t \<times> nvs_flash" where
  "NvsHandle_SetString this nvs key val = nvs_set (handle this) key (Item_STR val) nvs"

definition NvsHandle_SetBlob ::
  "NvsHandle \<Rightarrow> nvs_flash \<Rightarrow> string \<Rightarrow> 8 word list \<Rightarrow> esp_err_t \<times> nvs_flash" where
  "NvsHandle_SetBlob this nvs key val = nvs_set (handle this) key (Item_BLOB val) nvs"

definition NvsHandle_Commit :: "NvsHandle \<Rightarrow> nvs_flash \<Rightarrow> esp_err_t \<times> nvs_flash" where
  "NvsHandle_Commit this nvs = nvs_commit (handle this) nvs"

definition NvsHandle_EraseKey :: "NvsHandle \<Rightarrow> nvs_flash \<Rightarrow> string \<Rightarrow> esp_err_t \<times> nvs_flash" where
  "NvsHandle_EraseKey this nvs key = nvs_erase_key (handle this) key nvs"

definition NvsHandle_EraseAll :: "NvsHandle \<Rightarrow> nvs_flash \<Rightarrow> esp_err_t \<times> nvs_flash" where
  "NvsHandle_EraseAll this nvs = nvs_erase_all (handle this) nvs"

section \<open>The HTTP handlers that erase configuration (nvs_config_web_services.cpp)\<close>

text \<open>
  What a handler sends on the request: \<^verbatim>\<open>Httpd::Reply\<close> or \<^verbatim>\<open>Httpd::SendError\<close> with
  its status code and message.
\<close>

datatype httpd_err_code_t = HTTPD_500_INTERNAL_SERVER_ERROR

datatype http_response =
    Reply string
  | SendError httpd_err_code_t string

text \<open>
  The HTTP server and its query parser are outside the repository. A request of the
  configuration routes is what they deliver: whether \<^verbatim>\<open>httpd_req_get_url_query_str\<close>
  succeeded, and the values \<^verbatim>\<open>httpd_query_key_value\<close> finds for \<^verbatim>\<open>namespace\<close> and
  \<^verbatim>\<open>key\<close> (\<open>None\<close> when it fails).
\<close>

record config_request =
  query_str_ok :: bool
  query_namespace :: "string option"
  query_key :: "string option"

text \<open>
  Each handler returns its error code, the responses it sent and the store. The local
  \<^verbatim>\<open>NvsHandle my_handle\<close> is destroyed on every return that follows its declaration, which
  calls \<^verbatim>\<open>Close\<close>.
\<close>

definition App_DoConfigDeleteKey ::
  "config_request \<Rightarrow> nvs_flash \<Rightarrow> esp_err_t \<times> http_response list \<times> nvs_flash" where
  "App_DoConfigDeleteKey req nvs =
     (if \<not> query_str_ok req
      then (ESP_FAIL, [SendError HTTPD_500_INTERNAL_SERVER_ERROR ''Failed to get query string''], nvs)
      else case query_namespace req of
        None \<Rightarrow>
          (ESP_FAIL, [SendError HTTPD_500_INTERNAL_SERVER_ERROR ''Failed to get namespace parameter''], nvs)
      | Some name_space \<Rightarrow>
          (case query_key req of
             None \<Rightarrow>
               (ESP_FAIL, [SendError HTTPD_500_INTERNAL_SERVER_ERROR ''Failed to get key parameter''], nvs)
           | Some key \<Rightarrow>
               (case NvsHandle_Open NvsHandle_new nvs name_space NVS_READWRITE of
                  (err, my_handle, nvs1) \<Rightarrow>
                    if err \<noteq> ESP_OK
                    then (ESP_FAIL,
                          [SendError HTTPD_500_INTERNAL_SERVER_ERROR ''Failed to open NVS handle''],
                          NvsHandle_Close my_handle nvs1)
                    else (case NvsHandle_EraseKey my_handle nvs1 key of
                            (err2, nvs2) \<Rightarrow>
                              if err2 \<noteq> ESP_OK
                              then (ESP_FAIL,
                                    [SendError HTTPD_500_INTERNAL_SERVER_ERROR ''Failed to delete key''],
                                    NvsHandle_Close my_handle nvs2)
                              else (ESP_OK, [Reply ''Key Deleted''],
                                    NvsHandle_Close my_handle nvs2)))))"

definition App_DoConfigDeleteNameSpace ::
  "config_request \<Rightarrow> nvs_flash \<Rightarrow> esp_err_t \<times> http_response list \<times> nvs_flash" where
  "App_DoConfigDeleteNameSpace req nvs =
     (if \<not> query_str_ok req
      then (ESP_FAIL, [SendError HTTPD_500_INTERNAL_SERVER_ERROR ''Failed to get query string''], nvs)
      else case query_namespace req of
        None \<Rightarrow>
          (ESP_FAIL, [SendError HTTPD_500_INTERNAL_SERVER_ERROR ''Failed to get namespace parameter''], nvs)
      | Some name_space \<Rightarrow>
          (case NvsHandle_Open NvsHandle_new nvs name_space NVS_READWRITE of
             (err, my_handle, nvs1) \<Rightarrow>
               if err \<noteq> ESP_OK
               then (ESP_FAIL,
                     [SendError HTTPD_500_INTERNAL_SERVER_ERROR ''Failed to open NVS handle''],
                     NvsHandle_Close my_handle nvs1)
               else (case NvsHandle_EraseAll my_handle nvs1 of
                       (err2, nvs2) \<Rightarrow>
                         if err2 \<noteq> ESP_OK
                         then (ESP_FAIL,
                               [SendError HTTPD_500_INTERNAL_SERVER_ERROR ''Failed to delete namespace''],
                               NvsHandle_Close my_handle nvs2)
                         else (ESP_OK, [Reply ''Namespace Deleted''],
                               NvsHandle_Close my_handle nvs2))))"

section \<open>Updater (firmware_updater.cpp, firmware_updater.hpp)\<close>

datatype esp_ota_img_states_t =
    ESP_OTA_IMG_NEW
  | ESP_OTA_IMG_PENDING_VERIFY
  | ESP_OTA_IMG_VALID
  | ESP_OTA_IMG_INVALID
  | ESP_OTA_IMG_ABORTED
  | ESP_OTA_IMG_UNDEFINED

text \<open>
  The OTA data of the vendor SDK, as far as the updater reads it: the state recorded for
  the running partition, \<open>None\<close> when the partition has no such record and
  \<^verbatim>\<open>esp_ota_get_state_partition\<close> fails.
\<close>

record ota_device =
  running_state :: "esp_ota_img_states_t option"

text \<open>
  Modelled from the spec: \<^verbatim>\<open>esp_ota_get_state_partition\<close> of the vendor SDK reads the
  state of the running partition. This function, the one that marks the image valid and
  the effect of a successful \<^verbatim>\<open>esp_https_ota\<close> followed by \<^verbatim>\<open>esp_restart\<close> are the
  vendor SDK's and the bootloader's, not the repository's. The specification says: a
  successful update goes
  "Downloading, Flashed-PendingVerify, (implicit reboot)"; pending verification is "a
  post-flash state in which the new image is running but not yet marked permanently
  valid"; "Commit() marks the running image permanently valid".
\<close>

definition esp_ota_get_state_partition :: "ota_device \<Rightarrow> esp_err_t \<times> esp_ota_img_states_t option" where
  "esp_ota_get_state_partition dev =
     (case running_state dev of
        None \<Rightarrow> (ESP_ERR_OTHER 0, None)
      | Some st \<Rightarrow> (ESP_OK, Some st))"

text \<open>
  Modelled from the spec: \<^verbatim>\<open>esp_ota_mark_app_valid_cancel_rollback\<close> of the vendor SDK
  "marks the running image permanently valid".
\<close>

definition esp_ota_mark_app_valid_cancel_rollback :: "ota_device \<Rightarrow> ota_device" where
  "esp_ota_mark_app_valid_cancel_rollback dev =
     dev\<lparr>running_state := map_option (\<lambda>_. ESP_OTA_IMG_VALID) (running_state dev)\<rparr>"

text \<open>
  Modelled from the spec: what a successful \<^verbatim>\<open>esp_https_ota\<close> and the restart that follows
  leave behind: the new image runs and is pending verification.
\<close>

definition flash_and_reboot :: "ota_device \<Rightarrow> ota_device" where
  "flash_and_reboot dev = dev\<lparr>running_state := Some ESP_OTA_IMG_PENDING_VERIFY\<rparr>"

text \<open>
  How a call ends: it returns a value to its caller, or the device restarts
  (\<^verbatim>\<open>esp_restart\<close> does not return), or \<^verbatim>\<open>ESP_ERROR_CHECK\<close> aborts.
\<close>

datatype 'a outcome = Returns 'a | Reboots | Aborts

text \<open>
  \<^verbatim>\<open>Updater::Update\<close>. The results of \<^verbatim>\<open>esp_event_handler_register\<close> and of
  \<^verbatim>\<open>esp_https_ota\<close> are inputs: both are calls into the vendor SDK.
\<close>

definition Updater_Update ::
  "esp_err_t \<Rightarrow> esp_err_t \<Rightarrow> string \<Rightarrow> ota_device \<Rightarrow> esp_err_t outcome \<times> ota_device" where
  "Updater_Update register_result ota_result url dev =
     (if register_result \<noteq> ESP_OK then (Aborts, dev)
      else let ret = ota_result
           in if ret \<noteq> ESP_OK then (Returns ESP_FAIL, dev)
              else if ret \<noteq> ESP_OK then (Returns ESP_FAIL, dev)
              else (Reboots, flash_and_reboot dev))"

definition Updater_PendingVerification :: "ota_device \<Rightarrow> bool" where
  "Updater_PendingVerification dev =
     (case esp_ota_get_state_partition dev of
        (res, ota_state) \<Rightarrow>
          if res \<noteq> ESP_OK then False
          else ota_state = Some ESP_OTA_IMG_PENDING_VERIFY)"

definition Updater_Commit :: "ota_device \<Rightarrow> ota_device" where
  "Updater_Commit dev = esp_ota_mark_app_valid_cancel_rollback dev"

section \<open>The firmware-upgrade route (app.cpp)\<close>

text \<open>
  What the HTTP server and the JSON parser deliver to \<^verbatim>\<open>App::DoFirmwareUpgrade\<close>: the
  result of \<^verbatim>\<open>Receive\<close>, the request's \<^verbatim>\<open>content_len\<close>, and the parsed body: \<open>None\<close> when
  \<^verbatim>\<open>cJSON_Parse\<close> fails, \<open>Some None\<close> when the body has no string \<^verbatim>\<open>url\<close>, \<open>Some (Some u)\<close>
  when it has.
\<close>

record upgrade_request =
  recv_result :: int
  content_len :: int
  body_url :: "string option option"

definition App_DoFirmwareUpgrade ::
  "esp_err_t \<Rightarrow> esp_err_t \<Rightarrow> upgrade_request \<Rightarrow> ota_device
     \<Rightarrow> esp_err_t outcome \<times> http_response list \<times> ota_device" where
  "App_DoFirmwareUpgrade register_result ota_result req dev =
     (let res = recv_result req
      in if res < 0
         then (Returns ESP_FAIL,
               [SendError HTTPD_500_INTERNAL_SERVER_ERROR ''Failed to receive data''], dev)
         else if res \<noteq> content_len req
         then (Returns ESP_FAIL,
               [SendError HTTPD_500_INTERNAL_SERVER_ERROR ''Failed to receive all data''], dev)
         else case body_url req of
           None \<Rightarrow>
             (Returns ESP_FAIL,
              [SendError HTTPD_500_INTERNAL_SERVER_ERROR ''Failed to parse JSON''], dev)
         | Some None \<Rightarrow> (Returns ESP_FAIL, [], dev)
         | Some (Some url) \<Rightarrow>
             (let started = [Reply (''Firmware update started'' @ [CHR 0x0A])]
              in case Updater_Update register_result ota_result url dev of
                   (Returns err, dev1) \<Rightarrow>
                     if err \<noteq> ESP_OK
                     then (Returns ESP_FAIL,
                           started @ [SendError HTTPD_500_INTERNAL_SERVER_ERROR
                                        ''Failed to update firmware''],
                           dev1)
                     else (Returns ESP_OK, started, dev1)
                 | (Reboots, dev1) \<Rightarrow> (Reboots, started, dev1)
                 | (Aborts, dev1) \<Rightarrow> (Aborts, started, dev1)))"

section \<open>MQTT (mqtt.cpp, mqtt.hpp)\<close>

record subscription =
  topic :: string
  qos :: int

text \<open>
  The members of \<^verbatim>\<open>class MQTT\<close>: \<^verbatim>\<open>topic_base_\<close>, \<^verbatim>\<open>fatal_error_\<close>, \<^verbatim>\<open>connected_\<close>,
  \<^verbatim>\<open>led_\<close> (whether the pointer is non-null), \<^verbatim>\<open>client_\<close> (\<open>None\<close> for the null handle)
  and \<^verbatim>\<open>subscriptions_\<close>, with the initial values the class gives them.
\<close>

record MQTT =
  topic_base :: string
  fatal_error :: bool
  connected :: bool
  mqtt_led :: bool
  client :: "nat option"
  subscriptions :: "subscription list"

definition MQTT_new :: MQTT where
  "MQTT_new =
     \<lparr>topic_base = ''esp/'', fatal_error = False, connected = False, mqtt_led = False,
      client = None, subscriptions = []\<rparr>"

text \<open>
  The calls into the MQTT transport and the LED driver. A subscribe call is logged with
  the value the transport returned for it.
\<close>

datatype led_colour = kBlue | kWhite

datatype mqtt_call =
    Call_esp_mqtt_client_subscribe "nat option" string int int
  | Call_esp_mqtt_client_publish "nat option" string string int int int
  | Call_esp_mqtt_client_start "nat option"
  | Call_led_Flash led_colour

type_synonym subscribe_fn = "nat option \<Rightarrow> string \<Rightarrow> int \<Rightarrow> int"

type_synonym publish_fn = "nat option \<Rightarrow> string \<Rightarrow> string \<Rightarrow> int \<Rightarrow> int \<Rightarrow> int \<Rightarrow> int"

definition MQTT_AddSubscription :: "MQTT \<Rightarrow> string \<Rightarrow> int \<Rightarrow> MQTT" where
  "MQTT_AddSubscription this tp q =
     (let t = \<lparr>topic = tp, qos = q\<rparr>
      in this\<lparr>subscriptions := subscriptions this @ [t]\<rparr>)"

text \<open>
  \<^verbatim>\<open>Publish\<close>, as the header defines it inline: the transport's
  \<^verbatim>\<open>esp_mqtt_client_publish\<close> is called and its result is returned. The transport is the
  parameter \<open>publish\<close>.
\<close>

definition MQTT_Publish ::
  "publish_fn \<Rightarrow> MQTT \<Rightarrow> string \<Rightarrow> string \<Rightarrow> int \<Rightarrow> int \<Rightarrow> int \<Rightarrow> int \<times> mqtt_call list" where
  "MQTT_Publish publish this tp data len q retain =
     (publish (client this) tp data len q retain,
      [Call_esp_mqtt_client_publish (client this) tp data len q retain])"

text \<open>
  \<^verbatim>\<open>Start\<close>; the result of \<^verbatim>\<open>esp_mqtt_client_start\<close> is an input.
\<close>

definition MQTT_Start :: "esp_err_t \<Rightarrow> MQTT \<Rightarrow> esp_err_t \<times> mqtt_call list" where
  "MQTT_Start start_result this =
     (let err = start_result
      in if err \<noteq> ESP_OK then (err, [Call_esp_mqtt_client_start (client this)])
         else (ESP_OK, [Call_esp_mqtt_client_start (client this)]))"

datatype esp_mqtt_event_id_t =
    MQTT_EVENT_ERROR
  | MQTT_EVENT_CONNECTED
  | MQTT_EVENT_DISCONNECTED
  | MQTT_EVENT_SUBSCRIBED
  | MQTT_EVENT_UNSUBSCRIBED
  | MQTT_EVENT_PUBLISHED
  | MQTT_EVENT_DATA
  | MQTT_EVENT_BEFORE_CONNECT
  | MQTT_EVENT_DELETED

record esp_mqtt_event_t =
  event_id :: esp_mqtt_event_id_t
  event_client :: "nat option"

text \<open>
  The loop of the \<^verbatim>\<open>MQTT_EVENT_CONNECTED\<close> branch: one \<^verbatim>\<open>esp_mqtt_client_subscribe\<close>
  for each element of \<^verbatim>\<open>subscriptions_\<close>, front to back. The value the transport returns
  is not looked at.
\<close>

fun subscribe_each :: "subscribe_fn \<Rightarrow> nat option \<Rightarrow> subscription list \<Rightarrow> mqtt_call list" where
  "subscribe_each subscribe cl [] = []"
| "subscribe_each subscribe cl (s # ss) =
     (let filter = topic s;
          r = subscribe cl filter (qos s)
      in Call_esp_mqtt_client_subscribe cl filter (qos s) r # subscribe_each subscribe cl ss)"

text \<open>
  \<^verbatim>\<open>MQTT::EventHandler\<close>. The \<^verbatim>\<open>MQTT_EVENT_ERROR\<close> branch only writes to the log, which is
  not modelled.
\<close>

definition MQTT_EventHandler ::
  "subscribe_fn \<Rightarrow> MQTT \<Rightarrow> esp_mqtt_event_t \<Rightarrow> MQTT \<times> mqtt_call list" where
  "MQTT_EventHandler subscribe this event =
     (let cl = event_client event
      in case event_id event of
           MQTT_EVENT_CONNECTED \<Rightarrow>
             (this\<lparr>connected := True\<rparr>, subscribe_each subscribe cl (subscriptions this))
         | MQTT_EVENT_DISCONNECTED \<Rightarrow> (this\<lparr>connected := False\<rparr>, [])
         | MQTT_EVENT_DATA \<Rightarrow> (this, if mqtt_led this then [Call_led_Flash kBlue] else [])
         | MQTT_EVENT_PUBLISHED \<Rightarrow> (this, if mqtt_led this then [Call_led_Flash kWhite] else [])
         | MQTT_EVENT_ERROR \<Rightarrow> (this, [])
         | _ \<Rightarrow> (this, []))"

text \<open>
  \<^verbatim>\<open>MQTT::EventHandlerForwarder\<close> is what the transport calls. Its argument is the
  instance pointer, \<open>None\<close> when null. Either it returns at once, or the handler body
  runs.
\<close>

datatype dispatch = Not_dispatched | Dispatched MQTT "mqtt_call list"

definition MQTT_EventHandlerForwarder ::
  "subscribe_fn \<Rightarrow> MQTT option \<Rightarrow> esp_mqtt_event_t \<Rightarrow> dispatch" where
  "MQTT_EventHandlerForwarder subscribe arg event =
     (case arg of
        None \<Rightarrow> Not_dispatched
      | Some instance \<Rightarrow>
          if fatal_error instance then Not_dispatched
          else (case MQTT_EventHandler subscribe instance event of
                  (this, calls) \<Rightarrow> Dispatched this calls))"

text \<open>
  A session: the transport delivers the events one after the other to the forwarder,
  with the instance registered in \<^verbatim>\<open>Init\<close>. The result is the instance, the calls made
  and the number of times the handler body was entered.
\<close>

fun MQTT_session ::
  "subscribe_fn \<Rightarrow> MQTT \<Rightarrow> esp_mqtt_event_t list \<Rightarrow> MQTT \<times> mqtt_call list \<times> nat" where
  "MQTT_session subscribe this [] = (this, [], 0)"
| "MQTT_session subscribe this (e # es) =
     (case MQTT_EventHandlerForwarder subscribe (Some this) e of
        Not_dispatched \<Rightarrow> MQTT_session subscribe this es
      | Dispatched this1 calls \<Rightarrow>
          (case MQTT_session subscribe this1 es of
             (this2, calls2, n) \<Rightarrow> (this2, calls @ calls2, Suc n)))"

text \<open>
  The configuration \<^verbatim>\<open>Init\<close> builds for \<^verbatim>\<open>esp_mqtt_client_init\<close>: the fields it
  assigns. \<open>None\<close> is a field left at its zero initialisation.
\<close>

type_synonym LastWill = "string \<times> string"

record esp_mqtt_client_config_t =
  broker_address_uri :: string
  credentials_username :: "string option"
  credentials_authentication_password :: "string option"
  session_last_will :: "LastWill option"

text \<open>The C string a 64 byte buffer holds after a read: empty when it was never written.\<close>

definition buffer_string :: "string option \<Rightarrow> string" where
  "buffer_string b = (case b of None \<Rightarrow> [] | Some s \<Rightarrow> s)"

text \<open>
  \<^verbatim>\<open>MQTT::Init\<close>. The transport's \<^verbatim>\<open>esp_mqtt_client_init\<close> is the parameter
  \<open>client_init\<close> (\<open>None\<close> is the null handle) and the result of
  \<^verbatim>\<open>esp_mqtt_client_register_event\<close> is the input \<open>register_result\<close>. The four buffers
  are zero-initialised arrays of 64 bytes. The local \<^verbatim>\<open>NvsHandle\<close> is destroyed on every
  return; nothing writes to the store between \<^verbatim>\<open>Open\<close> and the return, so the
  destructor's \<^verbatim>\<open>Close\<close> is applied to the store as \<^verbatim>\<open>Open\<close> left it. The results are the
  error code, the instance, the store and the configuration handed to the transport
  (\<open>None\<close> when \<^verbatim>\<open>esp_mqtt_client_init\<close> was not reached).
\<close>

definition MQTT_Init ::
  "(esp_mqtt_client_config_t \<Rightarrow> nat option) \<Rightarrow> esp_err_t \<Rightarrow> MQTT \<Rightarrow> nvs_flash \<Rightarrow> LastWill option
     \<Rightarrow> esp_err_t \<times> MQTT \<times> nvs_flash \<times> esp_mqtt_client_config_t option" where
  "MQTT_Init client_init register_result this nvs last_will =
     (case NvsHandle_Open NvsHandle_new nvs ''mqtt'' NVS_READONLY of
        (open_err, hnd, nvs1) \<Rightarrow>
          (let nvs2 = NvsHandle_Close hnd nvs1
           in case NvsHandle_GetString hnd nvs1 ''broker'' (Some []) 64 of
                (broker_err, broker, len1) \<Rightarrow>
                  if broker_err \<noteq> ESP_OK then (ESP_FAIL, this, nvs2, None)
                  else (case NvsHandle_GetString hnd nvs1 ''username'' (Some []) 64 of
                    (username_err, username, len2) \<Rightarrow>
                  (case NvsHandle_GetString hnd nvs1 ''password'' (Some []) 64 of
                    (password_err, password, len3) \<Rightarrow>
                  (case NvsHandle_GetString hnd nvs1 ''topic-base'' (Some []) 64 of
                    (topic_err, topic_base_buf, len4) \<Rightarrow>
                      if topic_err \<noteq> ESP_OK then (ESP_FAIL, this, nvs2, None)
                      else
                        (let this1 = this\<lparr>topic_base := buffer_string topic_base_buf\<rparr>;
                             with_credentials =
                               (size (buffer_string username) > 0 \<and> size (buffer_string password) > 0);
                             mqtt_cfg =
                               \<lparr>broker_address_uri = buffer_string broker,
                                credentials_username =
                                  (if with_credentials then Some (buffer_string username) else None),
                                credentials_authentication_password =
                                  (if with_credentials then Some (buffer_string password) else None),
                                session_last_will = last_will\<rparr>;
                             this2 = this1\<lparr>client := client_init mqtt_cfg\<rparr>
                         in if client this2 = None then (ESP_FAIL, this2, nvs2, Some mqtt_cfg)
                            else (let err = register_result
                                  in if err \<noteq> ESP_OK then (err, this2, nvs2, Some mqtt_cfg)
                                     else (ESP_OK, this2, nvs2, Some mqtt_cfg))))))))"

section \<open>Scenarios and observations\<close>

text \<open>
  The application registers its subscriptions one after the other, each a pair of a
  topic and a quality of service.
\<close>

fun register_all :: "MQTT \<Rightarrow> (string \<times> int) list \<Rightarrow> MQTT" where
  "register_all this [] = this"
| "register_all this ((tp, q) # rest) = register_all (MQTT_AddSubscription this tp q) rest"

text \<open>The subscribe calls of a log: client, topic and quality of service of each.\<close>

fun subscribe_calls :: "mqtt_call list \<Rightarrow> (nat option \<times> string \<times> int) list" where
  "subscribe_calls [] = []"
| "subscribe_calls (Call_esp_mqtt_client_subscribe cl tp q r # cs) = (cl, tp, q) # subscribe_calls cs"
| "subscribe_calls (_ # cs) = subscribe_calls cs"

text \<open>
  The subscribe calls a replay of the subscriptions \<open>ss\<close> is expected to make on the
  event \<open>ev\<close>: one for each subscription, in the order of the list, when the event is
  the connect event, and none otherwise.
\<close>

definition replayed :: "subscription list \<Rightarrow> esp_mqtt_event_t \<Rightarrow> (nat option \<times> string \<times> int) list" where
  "replayed ss ev =
     (if event_id ev = MQTT_EVENT_CONNECTED
      then map (\<lambda>s. (event_client ev, topic s, qos s)) ss else [])"

text \<open>
  The read \<^verbatim>\<open>MQTT::Init\<close> makes of one of its settings: \<^verbatim>\<open>GetString\<close> into an empty
  buffer of 64 bytes, on the handle its \<^verbatim>\<open>Open\<close> of the namespace \<^verbatim>\<open>mqtt\<close> left.
\<close>

definition mqtt_setting :: "nvs_flash \<Rightarrow> string \<Rightarrow> esp_err_t \<times> string option \<times> nat" where
  "mqtt_setting nvs key =
     (case NvsHandle_Open NvsHandle_new nvs ''mqtt'' NVS_READONLY of
        (open_err, hnd, nvs1) \<Rightarrow> NvsHandle_GetString hnd nvs1 key (Some []) 64)"

text \<open>The values of each integer type: its least and its greatest.\<close>

fun type_range :: "nvs_type_t \<Rightarrow> (int \<times> int) option" where
  "type_range NVS_TYPE_U8 = Some (0, 2 ^ 8 - 1)"
| "type_range NVS_TYPE_I8 = Some (- (2 ^ 7), 2 ^ 7 - 1)"
| "type_range NVS_TYPE_U16 = Some (0, 2 ^ 16 - 1)"
| "type_range NVS_TYPE_I16 = Some (- (2 ^ 15), 2 ^ 15 - 1)"
| "type_range NVS_TYPE_U32 = Some (0, 2 ^ 32 - 1)"
| "type_range NVS_TYPE_I32 = Some (- (2 ^ 31), 2 ^ 31 - 1)"
| "type_range NVS_TYPE_U64 = Some (0, 2 ^ 64 - 1)"
| "type_range NVS_TYPE_I64 = Some (- (2 ^ 63), 2 ^ 63 - 1)"
| "type_range _ = None"

definition in_type :: "nvs_type_t \<Rightarrow> int \<Rightarrow> bool" where
  "in_type t v = (case type_range t of None \<Rightarrow> False | Some (lo, hi) \<Rightarrow> lo \<le> v \<and> v \<le> hi)"

text \<open>
  The round trip of the specification on one handle: the value is set, the handle is
  committed, and the key is looked up and read back. The integer \<open>v\<close> reaches \<^verbatim>\<open>SetInt\<close>
  converted to a double, as the parameter type demands. A string or a blob is read the
  way \<^verbatim>\<open>JsonNode\<close> reads it: a first call with a null buffer for the size, a second one
  with a buffer of that size. The results are those of the calls, in their order.
\<close>

definition set_commit_get_int ::
  "NvsHandle \<Rightarrow> nvs_flash \<Rightarrow> string \<Rightarrow> nvs_type_t \<Rightarrow> int
     \<Rightarrow> (esp_err_t \<times> esp_err_t \<times> (esp_err_t \<times> nvs_type_t option) \<times> (esp_err_t \<times> double option)) option" where
  "set_commit_get_int h nvs key t v =
     (case NvsHandle_SetInt h nvs key t (double_of_int v) of
        None \<Rightarrow> None
      | Some (e1, nvs1) \<Rightarrow>
          (case NvsHandle_Commit h nvs1 of
             (e2, nvs2) \<Rightarrow>
               Some (e1, e2, NvsHandle_FindKey h nvs2 key, NvsHandle_GetInt h nvs2 key t)))"

definition set_commit_get_string ::
  "NvsHandle \<Rightarrow> nvs_flash \<Rightarrow> string \<Rightarrow> string
     \<Rightarrow> esp_err_t \<times> esp_err_t \<times> (esp_err_t \<times> nvs_type_t option) \<times> esp_err_t
        \<times> (esp_err_t \<times> string option \<times> nat)" where
  "set_commit_get_string h nvs key s =
     (case NvsHandle_SetString h nvs key s of
        (e1, nvs1) \<Rightarrow>
          (case NvsHandle_Commit h nvs1 of
             (e2, nvs2) \<Rightarrow>
               (case NvsHandle_GetString h nvs2 key None 0 of
                  (e3, b, sz) \<Rightarrow>
                    (e1, e2, NvsHandle_FindKey h nvs2 key, e3,
                     NvsHandle_GetString h nvs2 key (Some []) sz))))"

definition set_commit_get_blob ::
  "NvsHandle \<Rightarrow> nvs_flash \<Rightarrow> string \<Rightarrow> 8 word list
     \<Rightarrow> esp_err_t \<times> esp_err_t \<times> (esp_err_t \<times> nvs_type_t option) \<times> esp_err_t
        \<times> (esp_err_t \<times> 8 word list option \<times> nat)" where
  "set_commit_get_blob h nvs key b =
     (case NvsHandle_SetBlob h nvs key b of
        (e1, nvs1) \<Rightarrow>
          (case NvsHandle_Commit h nvs1 of
             (e2, nvs2) \<Rightarrow>
               (case NvsHandle_GetBlob h nvs2 key None 0 of
                  (e3, p, sz) \<Rightarrow>
                    (e1, e2, NvsHandle_FindKey h nvs2 key, e3,
                     NvsHandle_GetBlob h nvs2 key (Some []) sz))))"

text \<open>
  What a later request for a key finds: a fresh handle is opened read-only on the
  namespace and the key is looked up on it, as \<^verbatim>\<open>App::DoConfigGetKey\<close> begins. The results
  are those of \<^verbatim>\<open>Open\<close> and of \<^verbatim>\<open>FindKey\<close>.
\<close>

definition find_on_fresh_handle ::
  "nvs_flash \<Rightarrow> string \<Rightarrow> string \<Rightarrow> esp_err_t \<times> (esp_err_t \<times> nvs_type_t option)" where
  "find_on_fresh_handle nvs name_space key =
     (case NvsHandle_Open NvsHandle_new nvs name_space NVS_READONLY of
        (err, hnd, nvs1) \<Rightarrow> (err, NvsHandle_FindKey hnd nvs1 key))"

text \<open>The commit calls of a log.\<close>

fun commit_calls :: "nvs_call list \<Rightarrow> nat list" where
  "commit_calls [] = []"
| "commit_calls (Call_nvs_commit h # cs) = h # commit_calls cs"
| "commit_calls (_ # cs) = commit_calls cs"

section \<open>Example states\<close>

text \<open>A provisioner in the middle of provisioning, with credentials received and none failed yet.\<close>

definition example_provisioner :: Provisioner where
  "example_provisioner =
     \<lparr>retries = 0, prov_led = True,
      mgr = \<lparr>sm_state = CredentialFailure, credentials = Some (''ssid'', ''secret''), initialised = True\<rparr>,
      driver_calls = []\<rparr>"

text \<open>A transport that accepts every publish, and one whose subscribe always fails.\<close>

definition example_publish :: publish_fn where
  "example_publish cl tp data len q retain = 1"

definition example_subscribe_failing :: subscribe_fn where
  "example_subscribe_failing cl tp q = - 1"

definition example_connected_event :: esp_mqtt_event_t where
  "example_connected_event = \<lparr>event_id = MQTT_EVENT_CONNECTED, event_client = Some 1\<rparr>"

definition example_data_event :: esp_mqtt_event_t where
  "example_data_event = \<lparr>event_id = MQTT_EVENT_DATA, event_client = Some 1\<rparr>"

text \<open>
  A store that holds the four MQTT settings, and a transport whose client initialisation
  succeeds.
\<close>

definition example_store :: nvs_flash where
  "example_store =
     \<lparr>stored = [(''mqtt'', ''broker'') \<mapsto> Item_STR ''mqtt://10.0.0.5'',
                (''mqtt'', ''username'') \<mapsto> Item_STR ''user'',
                (''mqtt'', ''password'') \<mapsto> Item_STR ''secret'',
                (''mqtt'', ''topic-base'') \<mapsto> Item_STR ''fh/es2/''],
      view = [(''mqtt'', ''broker'') \<mapsto> Item_STR ''mqtt://10.0.0.5'',
              (''mqtt'', ''username'') \<mapsto> Item_STR ''user'',
              (''mqtt'', ''password'') \<mapsto> Item_STR ''secret'',
              (''mqtt'', ''topic-base'') \<mapsto> Item_STR ''fh/es2/''],
      namespaces = {''mqtt''}, open_handles = Map.empty, handle_count = 0, nvs_log = []\<rparr>"

definition example_client_init :: "esp_mqtt_client_config_t \<Rightarrow> nat option" where
  "example_client_init cfg = Some 1"

text \<open>A device running a confirmed image, and a well-formed upgrade request.\<close>

definition example_device :: ota_device where
  "example_device = \<lparr>running_state = Some ESP_OTA_IMG_VALID\<rparr>"

definition example_upgrade_request :: upgrade_request where
  "example_upgrade_request =
     \<lparr>recv_result = 29, content_len = 29, body_url = Some (Some ''https://host/fw.bin'')\<rparr>"

text \<open>A handle object after a successful \<^verbatim>\<open>Open\<close> on the empty store.\<close>

definition example_opened :: "esp_err_t \<times> NvsHandle \<times> nvs_flash" where
  "example_opened = NvsHandle_Open NvsHandle_new nvs_flash_empty ''system'' NVS_READWRITE"

text \<open>Requests to delete the namespace \<^verbatim>\<open>mqtt\<close> and the key \<^verbatim>\<open>broker\<close> in it.\<close>

definition example_delete_request :: config_request where
  "example_delete_request =
     \<lparr>query_str_ok = True, query_namespace = Some ''mqtt'', query_key = Some ''broker''\<rparr>"

text \<open>A handle opened for writing on the namespace \<^verbatim>\<open>mqtt\<close> of the example store.\<close>

definition example_opened_mqtt :: "esp_err_t \<times> NvsHandle \<times> nvs_flash" where
  "example_opened_mqtt = NvsHandle_Open NvsHandle_new example_store ''mqtt'' NVS_READWRITE"


section \<open>Properties of the provisioner\<close>

lemma cred_fail_step:
  "Provisioner_EventHandler p (WIFI_PROV_EVENT WIFI_PROV_CRED_FAIL) =
     (if kMaxRetriesCount \<le> sint (retries p + 1)
      then p\<lparr>mgr := wifi_prov_mgr_reset_sm_state_on_failure (mgr p), retries := 0\<rparr>
      else p\<lparr>retries := retries p + 1\<rparr>)"
  by (simp add: Let_def)

lemma sint_increment:
  "sint (r :: 32 word) < 2147483647 \<Longrightarrow> sint (r + 1) = sint r + 1"
proof -
  assume a: "sint r < 2147483647"
  have lo: "- (2 ^ 31) \<le> sint r"
    using sint_ge [of r] by simp
  have "sint (r + 1) = signed_take_bit 31 (sint r + sint (1 :: 32 word))"
    by (simp add: sint_word_ariths)
  also have "\<dots> = signed_take_bit 31 (sint r + 1)"
    by simp
  also have "\<dots> = sint r + 1"
    using a lo by (intro signed_take_bit_int_eq_self) simp_all
  finally show ?thesis .
qed

lemma cred_fail_run:
  assumes "retries p = 0" and "n < 5"
  shows "Provisioner_deliver p (replicate n (WIFI_PROV_EVENT WIFI_PROV_CRED_FAIL))
     = p\<lparr>retries := of_nat n\<rparr>"
proof -
  from assms(2) consider "n = 0" | "n = 1" | "n = 2" | "n = 3" | "n = 4" by linarith
  then show ?thesis
  proof cases
    case 1 then show ?thesis using assms(1) by simp
  next
    case 2 then show ?thesis using assms(1)
      by (simp add: Let_def kMaxRetriesCount_def eval_nat_numeral)
  next
    case 3 then show ?thesis using assms(1)
      by (simp add: Let_def kMaxRetriesCount_def eval_nat_numeral)
  next
    case 4 then show ?thesis using assms(1)
      by (simp add: Let_def kMaxRetriesCount_def eval_nat_numeral)
  next
    case 5 then show ?thesis using assms(1)
      by (simp add: Let_def kMaxRetriesCount_def eval_nat_numeral)
  qed
qed

lemma cred_fail_fifth:
  assumes "retries p = 0"
  shows "Provisioner_deliver p (replicate 5 (WIFI_PROV_EVENT WIFI_PROV_CRED_FAIL))
     = p\<lparr>mgr := wifi_prov_mgr_reset_sm_state_on_failure (mgr p), retries := 0\<rparr>"
  using assms by (simp add: Let_def kMaxRetriesCount_def eval_nat_numeral)

text \<open>
  Claim C3. Every \<^verbatim>\<open>WIFI_PROV_CRED_FAIL\<close> event adds one to the retry counter, a signed
  word of 32 bits, and when the sum reaches \<open>kMaxRetriesCount\<close> the handler resets the
  manager and the counter; below the greatest value of the type the sum is the integer
  sum. \<^verbatim>\<open>WIFI_PROV_CRED_SUCCESS\<close> sets the counter to 0. Starting from a counter of 0,
  fewer than \<open>kMaxRetriesCount\<close> consecutive failures only count, and the failure number
  \<open>kMaxRetriesCount\<close> discards the stored credentials, puts the manager back to awaiting
  credentials and leaves the counter at 0.
\<close>

theorem retry_ceiling:
  "retries (Provisioner_EventHandler p (WIFI_PROV_EVENT WIFI_PROV_CRED_FAIL))
     = (if kMaxRetriesCount \<le> sint (retries p + 1) then 0 else retries p + 1)
   \<and> mgr (Provisioner_EventHandler p (WIFI_PROV_EVENT WIFI_PROV_CRED_FAIL))
     = (if kMaxRetriesCount \<le> sint (retries p + 1)
        then wifi_prov_mgr_reset_sm_state_on_failure (mgr p) else mgr p)
   \<and> (sint (retries p) < 2147483647 \<longrightarrow> sint (retries p + 1) = sint (retries p) + 1)
   \<and> retries (Provisioner_EventHandler p (WIFI_PROV_EVENT WIFI_PROV_CRED_SUCCESS)) = 0
   \<and> (retries p = 0 \<longrightarrow>
        (\<forall>n < nat kMaxRetriesCount.
           Provisioner_deliver p (replicate n (WIFI_PROV_EVENT WIFI_PROV_CRED_FAIL))
             = p\<lparr>retries := of_nat n\<rparr>)
        \<and> Provisioner_deliver p (replicate (nat kMaxRetriesCount) (WIFI_PROV_EVENT WIFI_PROV_CRED_FAIL))
             = p\<lparr>mgr := (mgr p)\<lparr>sm_state := AwaitingCredentials, credentials := None\<rparr>,
                  retries := 0\<rparr>)"
proof (intro conjI impI allI)
  show "retries (Provisioner_EventHandler p (WIFI_PROV_EVENT WIFI_PROV_CRED_FAIL))
     = (if kMaxRetriesCount \<le> sint (retries p + 1) then 0 else retries p + 1)"
    by (simp add: cred_fail_step del: Provisioner_EventHandler.simps)
  show "mgr (Provisioner_EventHandler p (WIFI_PROV_EVENT WIFI_PROV_CRED_FAIL))
     = (if kMaxRetriesCount \<le> sint (retries p + 1)
        then wifi_prov_mgr_reset_sm_state_on_failure (mgr p) else mgr p)"
    by (simp add: cred_fail_step del: Provisioner_EventHandler.simps)
  show "retries (Provisioner_EventHandler p (WIFI_PROV_EVENT WIFI_PROV_CRED_SUCCESS)) = 0"
    by simp
next
  assume "sint (retries p) < 2147483647"
  then show "sint (retries p + 1) = sint (retries p) + 1"
    by (rule sint_increment)
next
  fix n assume z: "retries p = 0" and n: "n < nat kMaxRetriesCount"
  then have "n < 5" by (simp add: kMaxRetriesCount_def)
  with z show "Provisioner_deliver p (replicate n (WIFI_PROV_EVENT WIFI_PROV_CRED_FAIL))
      = p\<lparr>retries := of_nat n\<rparr>"
    by (rule cred_fail_run)
next
  assume z: "retries p = 0"
  have five: "nat kMaxRetriesCount = 5"
    by (simp add: kMaxRetriesCount_def)
  show "Provisioner_deliver p (replicate (nat kMaxRetriesCount) (WIFI_PROV_EVENT WIFI_PROV_CRED_FAIL))
      = p\<lparr>mgr := (mgr p)\<lparr>sm_state := AwaitingCredentials, credentials := None\<rparr>, retries := 0\<rparr>"
    unfolding five cred_fail_fifth [OF z]
    by (simp add: wifi_prov_mgr_reset_sm_state_on_failure_def)
qed

text \<open>
  A provisioner with stored credentials and a counter of 0: three failures count to three
  and keep the credentials, five discard them.
\<close>

theorem retry_ceiling_witness:
  "retries example_provisioner = 0 \<and> (3::nat) < nat kMaxRetriesCount
   \<and> retries (Provisioner_deliver example_provisioner
        (replicate 3 (WIFI_PROV_EVENT WIFI_PROV_CRED_FAIL))) = 3
   \<and> credentials (mgr (Provisioner_deliver example_provisioner
        (replicate 3 (WIFI_PROV_EVENT WIFI_PROV_CRED_FAIL)))) = Some (''ssid'', ''secret'')
   \<and> retries (Provisioner_deliver example_provisioner
        (replicate 5 (WIFI_PROV_EVENT WIFI_PROV_CRED_FAIL))) = 0
   \<and> credentials (mgr (Provisioner_deliver example_provisioner
        (replicate 5 (WIFI_PROV_EVENT WIFI_PROV_CRED_FAIL)))) = None
   \<and> sm_state (mgr (Provisioner_deliver example_provisioner
        (replicate 5 (WIFI_PROV_EVENT WIFI_PROV_CRED_FAIL)))) = AwaitingCredentials"
proof -
  have z: "retries example_provisioner = 0"
    by (simp add: example_provisioner_def)
  have k: "nat kMaxRetriesCount = 5" "(3::nat) < nat kMaxRetriesCount"
    by (simp_all add: kMaxRetriesCount_def)
  from retry_ceiling [of example_provisioner] z
  have a: "\<forall>n < nat kMaxRetriesCount.
      Provisioner_deliver example_provisioner (replicate n (WIFI_PROV_EVENT WIFI_PROV_CRED_FAIL))
        = example_provisioner\<lparr>retries := of_nat n\<rparr>"
    and b: "Provisioner_deliver example_provisioner
        (replicate (nat kMaxRetriesCount) (WIFI_PROV_EVENT WIFI_PROV_CRED_FAIL))
      = example_provisioner\<lparr>mgr := (mgr example_provisioner)\<lparr>sm_state := AwaitingCredentials,
           credentials := None\<rparr>, retries := 0\<rparr>"
    by blast+
  from a k(2) have a3: "Provisioner_deliver example_provisioner (replicate 3 (WIFI_PROV_EVENT WIFI_PROV_CRED_FAIL))
        = example_provisioner\<lparr>retries := of_nat 3\<rparr>" by blast
  show ?thesis
    using z k(2) a3 b unfolding k(1) by (simp add: example_provisioner_def)
qed

section \<open>Properties of the MQTT client\<close>

text \<open>
  Counterexample to claim C2 as stated: the client starts disconnected, and a publish on
  it calls the transport and returns the transport's result.
\<close>

theorem publish_disconnected_counterexample:
  "connected MQTT_new = False
   \<and> MQTT_Publish example_publish MQTT_new ''esp/ping'' ''Hello MQTT'' 0 1 0
       = (1, [Call_esp_mqtt_client_publish None ''esp/ping'' ''Hello MQTT'' 0 1 0])"
  by (simp add: MQTT_new_def MQTT_Publish_def example_publish_def)

text \<open>
  Claim C2, amended. \<^verbatim>\<open>Publish\<close> does not read the connected flag: connected or not, it makes
  exactly one call of the transport's publish with its own arguments and returns what
  the transport returned.
\<close>

theorem publish_ignores_connected:
  "MQTT_Publish publish (this\<lparr>connected := False\<rparr>) tp data len q retain
     = MQTT_Publish publish (this\<lparr>connected := True\<rparr>) tp data len q retain
   \<and> fst (MQTT_Publish publish this tp data len q retain) = publish (client this) tp data len q retain
   \<and> snd (MQTT_Publish publish this tp data len q retain)
       = [Call_esp_mqtt_client_publish (client this) tp data len q retain]"
  by (simp add: MQTT_Publish_def)

lemma subscriptions_register_all:
  "subscriptions (register_all this subs)
     = subscriptions this @ map (\<lambda>(tp, q). \<lparr>topic = tp, qos = q\<rparr>) subs"
  by (induction this subs rule: register_all.induct) (simp_all add: MQTT_AddSubscription_def)

lemma subscribe_calls_append: "subscribe_calls (xs @ ys) = subscribe_calls xs @ subscribe_calls ys"
  by (induction xs rule: subscribe_calls.induct) simp_all

lemma subscribe_calls_subscribe_each:
  "subscribe_calls (subscribe_each subscribe cl ss) = map (\<lambda>s. (cl, topic s, qos s)) ss"
  by (induction ss) (simp_all add: Let_def)

lemma length_subscribe_each: "length (subscribe_each subscribe cl ss) = length ss"
  by (induction ss) (simp_all add: Let_def)

lemma EventHandler_connected:
  "event_id ev = MQTT_EVENT_CONNECTED \<Longrightarrow>
   MQTT_EventHandler subscribe this ev
     = (this\<lparr>connected := True\<rparr>, subscribe_each subscribe (event_client ev) (subscriptions this))"
  by (simp add: MQTT_EventHandler_def)

lemma EventHandler_keeps:
  "subscriptions (fst (MQTT_EventHandler subscribe this ev)) = subscriptions this"
  "fatal_error (fst (MQTT_EventHandler subscribe this ev)) = fatal_error this"
  by (simp_all add: MQTT_EventHandler_def split: esp_mqtt_event_id_t.splits)

lemma EventHandler_subscribe_calls:
  "subscribe_calls (snd (MQTT_EventHandler subscribe this ev)) = replayed (subscriptions this) ev"
  by (simp add: MQTT_EventHandler_def replayed_def subscribe_calls_subscribe_each
      split: esp_mqtt_event_id_t.splits)

lemma session_subscribe_calls:
  "\<not> fatal_error this \<Longrightarrow>
   subscribe_calls (fst (snd (MQTT_session subscribe this evs)))
     = concat (map (replayed (subscriptions this)) evs)"
proof (induction evs arbitrary: this)
  case Nil
  then show ?case by simp
next
  case (Cons e es)
  obtain this1 calls where h: "MQTT_EventHandler subscribe this e = (this1, calls)"
    by (cases "MQTT_EventHandler subscribe this e")
  have keep: "subscriptions this1 = subscriptions this" "fatal_error this1 = fatal_error this"
    using EventHandler_keeps [of subscribe this e] h by simp_all
  have c: "subscribe_calls calls = replayed (subscriptions this) e"
    using EventHandler_subscribe_calls [of subscribe this e] h by simp
  have "\<not> fatal_error this1" using keep Cons.prems by simp
  from Cons.IH [OF this] keep
  have ih: "subscribe_calls (fst (snd (MQTT_session subscribe this1 es)))
     = concat (map (replayed (subscriptions this)) es)"
    by simp
  show ?case
    using Cons.prems h c ih
    by (simp add: MQTT_EventHandlerForwarder_def subscribe_calls_append case_prod_unfold)
qed

lemma fatal_error_register_all: "fatal_error (register_all this subs) = fatal_error this"
  by (induction this subs rule: register_all.induct) (simp_all add: MQTT_AddSubscription_def)

text \<open>
  Claim C7. Subscriptions registered one after the other are appended to the list in that
  order. On a connect event the handler marks the client connected and issues one
  subscribe call for every registered subscription, in registration order, whatever the
  transport returns for each call. In a session of a client that is not poisoned, every
  connect event replays the whole list again.
\<close>

theorem subscription_replay:
  "subscriptions (register_all this subs)
     = subscriptions this @ map (\<lambda>(tp, q). \<lparr>topic = tp, qos = q\<rparr>) subs
   \<and> (event_id ev = MQTT_EVENT_CONNECTED \<longrightarrow>
        connected (fst (MQTT_EventHandler subscribe (register_all this subs) ev))
        \<and> length (snd (MQTT_EventHandler subscribe (register_all this subs) ev))
            = length (subscriptions this) + length subs
        \<and> subscribe_calls (snd (MQTT_EventHandler subscribe (register_all this subs) ev))
            = map (\<lambda>s. (event_client ev, topic s, qos s)) (subscriptions this)
              @ map (\<lambda>(tp, q). (event_client ev, tp, q)) subs)
   \<and> (\<not> fatal_error this \<longrightarrow>
        subscribe_calls (fst (snd (MQTT_session subscribe (register_all this subs) evs)))
          = concat (map (replayed (subscriptions (register_all this subs))) evs))"
proof (intro conjI impI)
  show "subscriptions (register_all this subs)
     = subscriptions this @ map (\<lambda>(tp, q). \<lparr>topic = tp, qos = q\<rparr>) subs"
    by (rule subscriptions_register_all)
next
  assume ev: "event_id ev = MQTT_EVENT_CONNECTED"
  show "connected (fst (MQTT_EventHandler subscribe (register_all this subs) ev))"
    by (simp add: EventHandler_connected [OF ev])
  show "length (snd (MQTT_EventHandler subscribe (register_all this subs) ev))
          = length (subscriptions this) + length subs"
    by (simp add: EventHandler_connected [OF ev] length_subscribe_each subscriptions_register_all)
  show "subscribe_calls (snd (MQTT_EventHandler subscribe (register_all this subs) ev))
          = map (\<lambda>s. (event_client ev, topic s, qos s)) (subscriptions this)
            @ map (\<lambda>(tp, q). (event_client ev, tp, q)) subs"
    by (simp add: EventHandler_connected [OF ev] subscribe_calls_subscribe_each
        subscriptions_register_all split_def)
next
  assume nf: "\<not> fatal_error this"
  then have "\<not> fatal_error (register_all this subs)"
    by (simp add: fatal_error_register_all)
  then show "subscribe_calls (fst (snd (MQTT_session subscribe (register_all this subs) evs)))
        = concat (map (replayed (subscriptions (register_all this subs))) evs)"
    by (rule session_subscribe_calls)
qed

text \<open>
  The subscriptions \<open>a\<close> and \<open>b\<close> on a transport whose subscribe
  always fails: a connect event subscribes \<open>a\<close>, then \<open>b\<close>, and a
  second connect event does so again.
\<close>

theorem subscription_replay_witness:
  "event_id example_connected_event = MQTT_EVENT_CONNECTED
   \<and> \<not> fatal_error MQTT_new
   \<and> subscribe_calls (snd (MQTT_EventHandler example_subscribe_failing
        (register_all MQTT_new [(''a'', 1), (''b'', 2)]) example_connected_event))
       = [(Some 1, ''a'', 1), (Some 1, ''b'', 2)]
   \<and> subscribe_calls (fst (snd (MQTT_session example_subscribe_failing
        (register_all MQTT_new [(''a'', 1), (''b'', 2)])
        [example_connected_event, example_data_event, example_connected_event])))
       = [(Some 1, ''a'', 1), (Some 1, ''b'', 2), (Some 1, ''a'', 1), (Some 1, ''b'', 2)]"
proof -
  have e: "event_id example_connected_event = MQTT_EVENT_CONNECTED"
    by (simp add: example_connected_event_def)
  have f: "\<not> fatal_error MQTT_new"
    by (simp add: MQTT_new_def)
  note t = subscription_replay [of MQTT_new "[(''a'', 1), (''b'', 2)]" example_connected_event
      example_subscribe_failing "[example_connected_event, example_data_event, example_connected_event]"]
  from t e have a: "subscribe_calls (snd (MQTT_EventHandler example_subscribe_failing
        (register_all MQTT_new [(''a'', 1), (''b'', 2)]) example_connected_event))
      = map (\<lambda>s. (event_client example_connected_event, topic s, qos s)) (subscriptions MQTT_new)
        @ map (\<lambda>(tp, q). (event_client example_connected_event, tp, q)) [(''a'', 1), (''b'', 2)]"
    by blast
  from t f have b: "subscribe_calls (fst (snd (MQTT_session example_subscribe_failing
        (register_all MQTT_new [(''a'', 1), (''b'', 2)])
        [example_connected_event, example_data_event, example_connected_event])))
      = concat (map (replayed (subscriptions (register_all MQTT_new [(''a'', 1), (''b'', 2)])))
          [example_connected_event, example_data_event, example_connected_event])"
    by blast
  have s: "subscriptions (register_all MQTT_new [(''a'', 1), (''b'', 2)])
      = [\<lparr>topic = ''a'', qos = 1\<rparr>, \<lparr>topic = ''b'', qos = 2\<rparr>]"
    by (simp add: MQTT_new_def MQTT_AddSubscription_def)
  show ?thesis
    unfolding a b s using e f
    by (simp add: replayed_def example_connected_event_def example_data_event_def MQTT_new_def)
qed

lemma poisoned_session:
  "fatal_error this \<Longrightarrow> MQTT_session subscribe this evs = (this, [], 0)"
  by (induction evs) (simp_all add: MQTT_EventHandlerForwarder_def)

lemma forwarder_guard:
  "fatal_error this \<Longrightarrow> MQTT_EventHandlerForwarder subscribe (Some this) ev = Not_dispatched"
  "MQTT_EventHandlerForwarder subscribe None ev = Not_dispatched"
  by (simp_all add: MQTT_EventHandlerForwarder_def)

lemma healthy_session_enters_every_time:
  "\<not> fatal_error this \<Longrightarrow> snd (snd (MQTT_session subscribe this evs)) = length evs"
proof (induction evs arbitrary: this)
  case Nil
  then show ?case by simp
next
  case (Cons e es)
  obtain this1 calls where h: "MQTT_EventHandler subscribe this e = (this1, calls)"
    by (cases "MQTT_EventHandler subscribe this e")
  have "fatal_error this1 = fatal_error this"
    using EventHandler_keeps(2) [of subscribe this e] h by simp
  then have "\<not> fatal_error this1" using Cons.prems by simp
  from Cons.IH [OF this] show ?case
    using Cons.prems h by (simp add: MQTT_EventHandlerForwarder_def case_prod_unfold)
qed


text \<open>
  Counterexample to claim C10 as stated: the broker address and the topic base are read,
  the transport client is initialised, and \<^verbatim>\<open>Init\<close> still fails, with the error of the event
  registration.
\<close>

theorem mqtt_init_counterexample:
  "fst (mqtt_setting example_store ''broker'') = ESP_OK
   \<and> fst (mqtt_setting example_store ''topic-base'') = ESP_OK
   \<and> client (fst (snd (MQTT_Init example_client_init (ESP_ERR_OTHER 258) MQTT_new example_store None)))
       = Some 1
   \<and> fst (MQTT_Init example_client_init (ESP_ERR_OTHER 258) MQTT_new example_store None)
       = ESP_ERR_OTHER 258"
  by (simp add: mqtt_setting_def MQTT_Init_def example_store_def example_client_init_def
      NvsHandle_Open_def NvsHandle_new_def nvs_open_def NvsHandle_GetString_def nvs_get_str_def
      nvs_lookup_def NvsHandle_Close_def nvs_close_def buffer_string_def MQTT_new_def Let_def)

text \<open>
  Claim C10, amended. \<^verbatim>\<open>Init\<close> succeeds exactly when the broker address and the topic base
  are read, the transport client is initialised and the event handler is registered; the
  reads of the user name and the password do not count. When one of the two required
  reads fails, \<^verbatim>\<open>Init\<close> returns \<^verbatim>\<open>ESP_FAIL\<close> before it reaches the transport and leaves the
  instance as it was; when the client is not initialised it returns \<^verbatim>\<open>ESP_FAIL\<close>; when the
  client is initialised it returns the result of the event registration, whatever that
  is. The configuration handed to the transport carries the broker address and the last
  will, and carries the user name and the password exactly when both are non-empty, a
  failed read leaving its buffer empty.
\<close>

theorem mqtt_init_result:
  "case MQTT_Init client_init register_result this nvs last_will of
     (err, this1, nvs1, cfg) \<Rightarrow>
       (err = ESP_OK \<longleftrightarrow>
          fst (mqtt_setting nvs ''broker'') = ESP_OK
          \<and> fst (mqtt_setting nvs ''topic-base'') = ESP_OK
          \<and> (\<exists>c. cfg = Some c \<and> client_init c \<noteq> None)
          \<and> register_result = ESP_OK)
       \<and> (\<forall>c. cfg = Some c \<longrightarrow>
            broker_address_uri c = buffer_string (fst (snd (mqtt_setting nvs ''broker'')))
            \<and> session_last_will c = last_will
            \<and> credentials_username c
                = (if buffer_string (fst (snd (mqtt_setting nvs ''username''))) \<noteq> []
                      \<and> buffer_string (fst (snd (mqtt_setting nvs ''password''))) \<noteq> []
                   then Some (buffer_string (fst (snd (mqtt_setting nvs ''username'')))) else None)
            \<and> credentials_authentication_password c
                = (if buffer_string (fst (snd (mqtt_setting nvs ''username''))) \<noteq> []
                      \<and> buffer_string (fst (snd (mqtt_setting nvs ''password''))) \<noteq> []
                   then Some (buffer_string (fst (snd (mqtt_setting nvs ''password'')))) else None))
       \<and> (cfg = None \<longleftrightarrow>
            fst (mqtt_setting nvs ''broker'') \<noteq> ESP_OK
            \<or> fst (mqtt_setting nvs ''topic-base'') \<noteq> ESP_OK)
       \<and> (cfg = None \<longrightarrow> err = ESP_FAIL \<and> this1 = this)
       \<and> (\<forall>c. cfg = Some c \<longrightarrow>
            client this1 = client_init c
            \<and> topic_base this1 = buffer_string (fst (snd (mqtt_setting nvs ''topic-base'')))
            \<and> (client_init c = None \<longrightarrow> err = ESP_FAIL)
            \<and> (client_init c \<noteq> None \<longrightarrow> err = register_result))"
  by (auto simp: MQTT_Init_def mqtt_setting_def Let_def split: prod.splits)

text \<open>
  A store with all four settings and a transport that works: \<^verbatim>\<open>Init\<close> succeeds and the
  configuration carries the credentials; with a registration that fails, \<^verbatim>\<open>Init\<close> returns
  the registration's error. On the empty store \<^verbatim>\<open>Init\<close> returns \<^verbatim>\<open>ESP_FAIL\<close> and hands no
  configuration to the transport.
\<close>

theorem mqtt_init_result_witness:
  "fst (MQTT_Init example_client_init ESP_OK MQTT_new example_store None) = ESP_OK
   \<and> snd (snd (snd (MQTT_Init example_client_init ESP_OK MQTT_new example_store None)))
       = Some \<lparr>broker_address_uri = ''mqtt://10.0.0.5'', credentials_username = Some ''user'',
               credentials_authentication_password = Some ''secret'', session_last_will = None\<rparr>
   \<and> fst (MQTT_Init example_client_init (ESP_ERR_OTHER 259) MQTT_new example_store None)
       = ESP_ERR_OTHER 259
   \<and> fst (MQTT_Init example_client_init ESP_OK MQTT_new nvs_flash_empty None) = ESP_FAIL
   \<and> snd (snd (snd (MQTT_Init example_client_init ESP_OK MQTT_new nvs_flash_empty None))) = None"
  using mqtt_init_result [where client_init = example_client_init and register_result = ESP_OK
      and this = MQTT_new and nvs = example_store and last_will = None]
    mqtt_init_result [where client_init = example_client_init
      and register_result = "ESP_ERR_OTHER 259"
      and this = MQTT_new and nvs = example_store and last_will = None]
    mqtt_init_result [where client_init = example_client_init and register_result = ESP_OK
      and this = MQTT_new and nvs = nvs_flash_empty and last_will = None]
  by (simp add: mqtt_setting_def MQTT_Init_def example_store_def example_client_init_def
      nvs_flash_empty_def
      NvsHandle_Open_def NvsHandle_new_def nvs_open_def NvsHandle_GetString_def nvs_get_str_def
      nvs_lookup_def NvsHandle_Close_def nvs_close_def buffer_string_def MQTT_new_def Let_def)

section \<open>Properties of the updater\<close>

text \<open>
  Counterexample to claim C4 as stated: on a successful update the firmware-upgrade route
  has sent a reply to its caller before the device restarts.
\<close>

theorem upgrade_replies_before_update:
  "App_DoFirmwareUpgrade ESP_OK ESP_OK example_upgrade_request example_device
     = (Reboots, [Reply (''Firmware update started'' @ [CHR 0x0A])],
        \<lparr>running_state = Some ESP_OTA_IMG_PENDING_VERIFY\<rparr>)"
  by (simp add: App_DoFirmwareUpgrade_def Updater_Update_def example_upgrade_request_def
      example_device_def flash_and_reboot_def)

text \<open>
  Claim C4, amended. With the event handler registered, a successful download and flash
  ends in a restart and \<^verbatim>\<open>Update\<close> does not return; the route has by then sent the reply
  that the update started, and nothing else. When the download or the flash fails,
  \<^verbatim>\<open>Update\<close> returns \<^verbatim>\<open>ESP_FAIL\<close> and leaves the device as it was; the route, after the
  same first reply, sends the error to its caller and returns \<^verbatim>\<open>ESP_FAIL\<close>, and the device
  does not restart.
\<close>

theorem update_outcomes:
  "Updater_Update ESP_OK ESP_OK url dev = (Reboots, flash_and_reboot dev)
   \<and> (ota_result \<noteq> ESP_OK \<longrightarrow> Updater_Update ESP_OK ota_result url dev = (Returns ESP_FAIL, dev))
   \<and> (0 \<le> recv_result req \<and> recv_result req = content_len req \<and> body_url req = Some (Some url) \<longrightarrow>
        App_DoFirmwareUpgrade ESP_OK ESP_OK req dev
          = (Reboots, [Reply (''Firmware update started'' @ [CHR 0x0A])], flash_and_reboot dev)
        \<and> (ota_result \<noteq> ESP_OK \<longrightarrow>
             App_DoFirmwareUpgrade ESP_OK ota_result req dev
               = (Returns ESP_FAIL,
                  [Reply (''Firmware update started'' @ [CHR 0x0A]),
                   SendError HTTPD_500_INTERNAL_SERVER_ERROR ''Failed to update firmware''],
                  dev)))"
  by (simp add: App_DoFirmwareUpgrade_def Updater_Update_def)

text \<open>
  A well-formed upgrade request whose download fails: the error goes to the caller after
  the first reply and the device is as before.
\<close>

theorem update_outcomes_witness:
  "ESP_FAIL \<noteq> ESP_OK
   \<and> 0 \<le> recv_result example_upgrade_request
   \<and> recv_result example_upgrade_request = content_len example_upgrade_request
   \<and> body_url example_upgrade_request = Some (Some ''https://host/fw.bin'')
   \<and> Updater_Update ESP_OK ESP_FAIL ''https://host/fw.bin'' example_device
       = (Returns ESP_FAIL, example_device)
   \<and> App_DoFirmwareUpgrade ESP_OK ESP_FAIL example_upgrade_request example_device
       = (Returns ESP_FAIL,
          [Reply (''Firmware update started'' @ [CHR 0x0A]),
           SendError HTTPD_500_INTERNAL_SERVER_ERROR ''Failed to update firmware''],
          example_device)"
proof -
  have h: "ESP_FAIL \<noteq> ESP_OK" "0 \<le> recv_result example_upgrade_request"
    "recv_result example_upgrade_request = content_len example_upgrade_request"
    "body_url example_upgrade_request = Some (Some ''https://host/fw.bin'')"
    by (simp_all add: example_upgrade_request_def)
  from update_outcomes [where url = "''https://host/fw.bin''" and dev = example_device
      and ota_result = ESP_FAIL and req = example_upgrade_request] h
  show ?thesis by blast
qed

text \<open>
  Claim C6. \<^verbatim>\<open>PendingVerification\<close> is true exactly when the state of the running image
  can be read and is pending verification. After a successful update and the restart into
  the new image it is true; after \<^verbatim>\<open>Commit\<close>, on that image or on any other, it is false,
  and stays false when \<^verbatim>\<open>Commit\<close> is called again.
\<close>

theorem pending_verification_cycle:
  "(Updater_PendingVerification dev \<longleftrightarrow> running_state dev = Some ESP_OTA_IMG_PENDING_VERIFY)
   \<and> Updater_PendingVerification (snd (Updater_Update ESP_OK ESP_OK url dev))
   \<and> \<not> Updater_PendingVerification (Updater_Commit (snd (Updater_Update ESP_OK ESP_OK url dev)))
   \<and> \<not> Updater_PendingVerification (Updater_Commit dev)
   \<and> \<not> Updater_PendingVerification (Updater_Commit (Updater_Commit dev))"
  by (simp add: Updater_PendingVerification_def Updater_Update_def Updater_Commit_def
      flash_and_reboot_def esp_ota_get_state_partition_def
      esp_ota_mark_app_valid_cancel_rollback_def split: option.splits)

section \<open>Properties of the store handle\<close>

lemma close_twice_log:
  "handle this \<noteq> 0 \<Longrightarrow>
   nvs_log (NvsHandle_Close this (NvsHandle_Close this nvs))
     = nvs_log (NvsHandle_Close this nvs) @ [Call_nvs_close (handle this)]"
  by (simp add: NvsHandle_Close_def nvs_close_def)

text \<open>
  Claim C8 does not hold of the code: \<^verbatim>\<open>Close\<close> leaves \<^verbatim>\<open>handle_\<close> as it is, so on a handle
  that was opened a second \<^verbatim>\<open>Close\<close> calls \<^verbatim>\<open>nvs_close\<close> once more, and the store after
  it differs from the store after the first by that call.
\<close>

theorem close_twice_releases_twice:
  "fst example_opened = ESP_OK
   \<and> handle (fst (snd example_opened)) = 1
   \<and> nvs_log (NvsHandle_Close (fst (snd example_opened)) (snd (snd example_opened)))
       = [Call_nvs_open ''system'' NVS_READWRITE, Call_nvs_close 1]
   \<and> nvs_log (NvsHandle_Close (fst (snd example_opened))
        (NvsHandle_Close (fst (snd example_opened)) (snd (snd example_opened))))
       = [Call_nvs_open ''system'' NVS_READWRITE, Call_nvs_close 1, Call_nvs_close 1]
   \<and> NvsHandle_Close (fst (snd example_opened))
        (NvsHandle_Close (fst (snd example_opened)) (snd (snd example_opened)))
       \<noteq> NvsHandle_Close (fst (snd example_opened)) (snd (snd example_opened))"
proof -
  have o: "example_opened =
      (ESP_OK, \<lparr>handle = 1\<rparr>,
       \<lparr>stored = Map.empty, view = Map.empty, namespaces = {''system''},
        open_handles = [1 \<mapsto> (''system'', NVS_READWRITE)], handle_count = 1,
        nvs_log = [Call_nvs_open ''system'' NVS_READWRITE]\<rparr>)"
    by (simp add: example_opened_def NvsHandle_Open_def NvsHandle_new_def nvs_open_def
        nvs_flash_empty_def Let_def)
  have l1: "nvs_log (NvsHandle_Close (fst (snd example_opened)) (snd (snd example_opened)))
       = [Call_nvs_open ''system'' NVS_READWRITE, Call_nvs_close 1]"
    by (simp add: o NvsHandle_Close_def nvs_close_def)
  have l2: "nvs_log (NvsHandle_Close (fst (snd example_opened))
        (NvsHandle_Close (fst (snd example_opened)) (snd (snd example_opened))))
       = [Call_nvs_open ''system'' NVS_READWRITE, Call_nvs_close 1, Call_nvs_close 1]"
    by (simp add: o NvsHandle_Close_def nvs_close_def)
  have ne: "NvsHandle_Close (fst (snd example_opened))
        (NvsHandle_Close (fst (snd example_opened)) (snd (snd example_opened)))
       \<noteq> NvsHandle_Close (fst (snd example_opened)) (snd (snd example_opened))"
  proof
    assume "NvsHandle_Close (fst (snd example_opened))
        (NvsHandle_Close (fst (snd example_opened)) (snd (snd example_opened)))
       = NvsHandle_Close (fst (snd example_opened)) (snd (snd example_opened))"
    then have "nvs_log (NvsHandle_Close (fst (snd example_opened))
        (NvsHandle_Close (fst (snd example_opened)) (snd (snd example_opened))))
       = nvs_log (NvsHandle_Close (fst (snd example_opened)) (snd (snd example_opened)))"
      by simp
    then show False
      unfolding l1 l2 by simp
  qed
  show ?thesis
    using l1 l2 ne by (simp add: o)
qed

section \<open>Properties of the typed round trip\<close>

lemma double_of_nat_small: "n < 2 ^ 53 \<Longrightarrow> double_of_nat n = n"
  by (simp add: double_of_nat_def)

lemma double_of_int_small: "\<bar>v\<bar> < 2 ^ 53 \<Longrightarrow> double_of_int v = v"
  by (auto simp: double_of_int_def double_of_nat_def nat_less_iff)

lemma bit_length_bounds: "2 ^ k \<le> n \<Longrightarrow> n < 2 ^ Suc k \<Longrightarrow> bit_length n = Suc k"
proof (induction k arbitrary: n)
  case 0
  then have "n = 1" by simp
  then show ?case by (simp add: bit_length.simps)
next
  case (Suc k)
  have a: "2 ^ k \<le> n div 2" using Suc.prems by simp
  have b: "n div 2 < 2 ^ Suc k" using Suc.prems by simp
  have "n \<noteq> 0" using Suc.prems by auto
  then have "bit_length n = Suc (bit_length (n div 2))"
    by (subst bit_length.simps) simp
  with Suc.IH [OF a b] show ?case by simp
qed

lemma bit_length_2_53: "bit_length 9007199254740992 = 54"
  using bit_length_bounds [of 53 9007199254740992] by simp

lemma bit_length_2_53_1: "bit_length 9007199254740993 = 54"
  using bit_length_bounds [of 53 9007199254740993] by simp

lemma double_of_nat_2_53: "double_of_nat 9007199254740992 = 9007199254740992"
  by (simp add: double_of_nat_def bit_length_2_53 Let_def)

lemma double_of_int_upto_2_53: "\<bar>v\<bar> \<le> 2 ^ 53 \<Longrightarrow> double_of_int v = v"
proof (cases "\<bar>v\<bar> < 2 ^ 53")
  case True
  then show ?thesis by (rule double_of_int_small)
next
  case False
  assume "\<bar>v\<bar> \<le> 2 ^ 53"
  with False have "v = 2 ^ 53 \<or> v = - (2 ^ 53)" by linarith
  then show ?thesis
    by (auto simp: double_of_int_def double_of_nat_2_53)
qed

lemma uint_word_of_int_in_range:
  "0 \<le> v \<Longrightarrow> v < 2 ^ LENGTH('a) \<Longrightarrow> uint (word_of_int v :: 'a::len word) = v"
  by (simp add: uint_word_of_int)

lemma sint_word_of_int_in_range:
  "- (2 ^ (LENGTH('a) - 1)) \<le> v \<Longrightarrow> v < 2 ^ (LENGTH('a) - 1)
   \<Longrightarrow> sint (word_of_int v :: 'a::len word) = v"
  by (simp add: signed_of_int signed_take_bit_int_eq_self)

lemma double_of_int_inexact:
  "double_of_int 9007199254740993 = 9007199254740992"
  by (simp add: double_of_int_def double_of_nat_def bit_length_2_53_1 Let_def)

lemmas nvs_int_defs =
  set_commit_get_int_def NvsHandle_SetInt_def double_to_unsigned_def double_to_signed_def
  nvs_set_def NvsHandle_Commit_def nvs_commit_def NvsHandle_FindKey_def nvs_find_key_def
  nvs_lookup_def NvsHandle_GetInt_def in_type_def Let_def

lemma roundtrip_int:
  assumes h: "open_handles nvs (handle h) = Some (ns, NVS_READWRITE)"
    and t: "in_type t v" and d: "double_of_int v = v"
  shows "set_commit_get_int h nvs key t v = Some (ESP_OK, ESP_OK, (ESP_OK, Some t), (ESP_OK, Some v))"
proof (cases t)
  case NVS_TYPE_U8
  then show ?thesis using h t d
    by (simp add: nvs_int_defs nvs_get_u8_def uint_word_of_int_in_range)
next
  case NVS_TYPE_I8
  then show ?thesis using h t d
    by (simp add: nvs_int_defs nvs_get_i8_def sint_word_of_int_in_range)
next
  case NVS_TYPE_U16
  then show ?thesis using h t d
    by (simp add: nvs_int_defs nvs_get_u16_def uint_word_of_int_in_range)
next
  case NVS_TYPE_I16
  then show ?thesis using h t d
    by (simp add: nvs_int_defs nvs_get_i16_def sint_word_of_int_in_range)
next
  case NVS_TYPE_U32
  then show ?thesis using h t d
    by (simp add: nvs_int_defs nvs_get_u32_def uint_word_of_int_in_range)
next
  case NVS_TYPE_I32
  then show ?thesis using h t d
    by (simp add: nvs_int_defs nvs_get_i32_def sint_word_of_int_in_range)
next
  case NVS_TYPE_U64
  then show ?thesis using h t d
    by (simp add: nvs_int_defs nvs_get_u64_def uint_word_of_int_in_range)
next
  case NVS_TYPE_I64
  then show ?thesis using h t d
    by (simp add: nvs_int_defs nvs_get_i64_def sint_word_of_int_in_range)
next
  case NVS_TYPE_STR
  then show ?thesis using t by (simp add: in_type_def)
next
  case NVS_TYPE_BLOB
  then show ?thesis using t by (simp add: in_type_def)
next
  case NVS_TYPE_ANY
  then show ?thesis using t by (simp add: in_type_def)
qed

lemma narrow_types_exact:
  assumes t: "in_type t v" and n: "t \<noteq> NVS_TYPE_U64" "t \<noteq> NVS_TYPE_I64"
  shows "double_of_int v = v"
proof -
  have "\<bar>v\<bar> < 2 ^ 53"
    using t n by (cases t) (auto simp: in_type_def)
  then show ?thesis by (rule double_of_int_small)
qed

lemma roundtrip_string:
  assumes h: "open_handles nvs (handle h) = Some (ns, NVS_READWRITE)"
  shows "set_commit_get_string h nvs key s
     = (ESP_OK, ESP_OK, (ESP_OK, Some NVS_TYPE_STR), ESP_OK, (ESP_OK, Some s, size s + 1))"
  using h
  by (simp add: set_commit_get_string_def NvsHandle_SetString_def nvs_set_def NvsHandle_Commit_def
      nvs_commit_def NvsHandle_FindKey_def nvs_find_key_def nvs_lookup_def NvsHandle_GetString_def
      nvs_get_str_def Let_def)

lemma roundtrip_blob:
  assumes h: "open_handles nvs (handle h) = Some (ns, NVS_READWRITE)"
  shows "set_commit_get_blob h nvs key b
     = (ESP_OK, ESP_OK, (ESP_OK, Some NVS_TYPE_BLOB), ESP_OK, (ESP_OK, Some b, size b))"
  using h
  by (simp add: set_commit_get_blob_def NvsHandle_SetBlob_def nvs_set_def NvsHandle_Commit_def
      nvs_commit_def NvsHandle_FindKey_def nvs_find_key_def nvs_lookup_def NvsHandle_GetBlob_def
      nvs_get_blob_def Let_def)

lemma example_opened_eq:
  "example_opened =
      (ESP_OK, \<lparr>handle = 1\<rparr>,
       \<lparr>stored = Map.empty, view = Map.empty, namespaces = {''system''},
        open_handles = [1 \<mapsto> (''system'', NVS_READWRITE)], handle_count = 1,
        nvs_log = [Call_nvs_open ''system'' NVS_READWRITE]\<rparr>)"
  by (simp add: example_opened_def NvsHandle_Open_def NvsHandle_new_def nvs_open_def
      nvs_flash_empty_def Let_def)

text \<open>
  Counterexample to claim C1 as stated: \<open>2 ^ 53 + 1\<close> is a value of the unsigned 64 bit
  type, and after set, commit and get the register holds \<open>2 ^ 53\<close>.
\<close>

theorem roundtrip_u64_counterexample:
  "in_type NVS_TYPE_U64 9007199254740993
   \<and> set_commit_get_int (fst (snd example_opened)) (snd (snd example_opened)) ''counter''
        NVS_TYPE_U64 9007199254740993
       = Some (ESP_OK, ESP_OK, (ESP_OK, Some NVS_TYPE_U64), (ESP_OK, Some 9007199254740992))"
  by (simp add: example_opened_eq nvs_int_defs nvs_get_u64_def double_of_int_inexact
      double_of_int_upto_2_53)

text \<open>
  Claim C1, amended. On a handle open for writing, set, commit and get return the type
  and the value that were set: for every value of an integer type that a double holds
  exactly, among them every value of the 8, 16 and 32 bit types and every 64 bit value of
  magnitude up to \<open>2 ^ 53\<close>; for every string; and for every blob.
\<close>

theorem config_roundtrip:
  "open_handles nvs (handle h) = Some (ns, NVS_READWRITE) \<longrightarrow>
     (in_type t v \<and> double_of_int v = v \<longrightarrow>
        set_commit_get_int h nvs key t v
          = Some (ESP_OK, ESP_OK, (ESP_OK, Some t), (ESP_OK, Some v)))
     \<and> (in_type t v \<and> t \<noteq> NVS_TYPE_U64 \<and> t \<noteq> NVS_TYPE_I64 \<longrightarrow> double_of_int v = v)
     \<and> (\<bar>v\<bar> \<le> 2 ^ 53 \<longrightarrow> double_of_int v = v)
     \<and> set_commit_get_string h nvs key s
          = (ESP_OK, ESP_OK, (ESP_OK, Some NVS_TYPE_STR), ESP_OK, (ESP_OK, Some s, size s + 1))
     \<and> set_commit_get_blob h nvs key b
          = (ESP_OK, ESP_OK, (ESP_OK, Some NVS_TYPE_BLOB), ESP_OK, (ESP_OK, Some b, size b))"
  using roundtrip_int [of nvs h ns t v key] narrow_types_exact [of t v]
    double_of_int_upto_2_53 [of v] roundtrip_string [of nvs h ns key s]
    roundtrip_blob [of nvs h ns key b]
  by blast

text \<open>
  The signed 64 bit value \<open>- 2 ^ 53\<close>, the greatest unsigned 32 bit value, a
  string and a blob, each set, committed and read back.
\<close>

theorem config_roundtrip_witness:
  "open_handles (snd (snd example_opened)) (handle (fst (snd example_opened)))
     = Some (''system'', NVS_READWRITE)
   \<and> in_type NVS_TYPE_I64 (- 9007199254740992)
   \<and> set_commit_get_int (fst (snd example_opened)) (snd (snd example_opened)) ''offset''
        NVS_TYPE_I64 (- 9007199254740992)
       = Some (ESP_OK, ESP_OK, (ESP_OK, Some NVS_TYPE_I64), (ESP_OK, Some (- 9007199254740992)))
   \<and> in_type NVS_TYPE_U32 4294967295
   \<and> set_commit_get_int (fst (snd example_opened)) (snd (snd example_opened)) ''mask''
        NVS_TYPE_U32 4294967295
       = Some (ESP_OK, ESP_OK, (ESP_OK, Some NVS_TYPE_U32), (ESP_OK, Some 4294967295))
   \<and> set_commit_get_string (fst (snd example_opened)) (snd (snd example_opened)) ''hostname''
        ''funhouse''
       = (ESP_OK, ESP_OK, (ESP_OK, Some NVS_TYPE_STR), ESP_OK, (ESP_OK, Some ''funhouse'', 9))
   \<and> set_commit_get_blob (fst (snd example_opened)) (snd (snd example_opened)) ''cert''
        [1, 2, 255]
       = (ESP_OK, ESP_OK, (ESP_OK, Some NVS_TYPE_BLOB), ESP_OK, (ESP_OK, Some [1, 2, 255], 3))"
proof -
  have o: "open_handles (snd (snd example_opened)) (handle (fst (snd example_opened)))
     = Some (''system'', NVS_READWRITE)"
    by (simp add: example_opened_eq)
  have i64: "in_type NVS_TYPE_I64 (- 9007199254740992)" "\<bar>- 9007199254740992 :: int\<bar> \<le> 2 ^ 53"
    by (simp_all add: in_type_def)
  have u32: "in_type NVS_TYPE_U32 4294967295" "NVS_TYPE_U32 \<noteq> NVS_TYPE_U64"
    "NVS_TYPE_U32 \<noteq> NVS_TYPE_I64"
    by (simp_all add: in_type_def)
  note a = config_roundtrip [where nvs = "snd (snd example_opened)" and h = "fst (snd example_opened)"
      and ns = "''system''" and t = NVS_TYPE_I64 and v = "- 9007199254740992" and key = "''offset''"
      and s = "''funhouse''" and b = "[1, 2, 255]"]
  note b = config_roundtrip [where nvs = "snd (snd example_opened)" and h = "fst (snd example_opened)"
      and ns = "''system''" and t = NVS_TYPE_U32 and v = 4294967295 and key = "''mask''"
      and s = "''funhouse''" and b = "[1, 2, 255]"]
  note c = config_roundtrip [where nvs = "snd (snd example_opened)" and h = "fst (snd example_opened)"
      and ns = "''system''" and t = NVS_TYPE_U32 and v = 4294967295 and key = "''hostname''"
      and s = "''funhouse''" and b = "[1, 2, 255]"]
  note d = config_roundtrip [where nvs = "snd (snd example_opened)" and h = "fst (snd example_opened)"
      and ns = "''system''" and t = NVS_TYPE_U32 and v = 4294967295 and key = "''cert''"
      and s = "''funhouse''" and b = "[1, 2, 255]"]
  have r1: "set_commit_get_int (fst (snd example_opened)) (snd (snd example_opened)) ''offset''
        NVS_TYPE_I64 (- 9007199254740992)
       = Some (ESP_OK, ESP_OK, (ESP_OK, Some NVS_TYPE_I64), (ESP_OK, Some (- 9007199254740992)))"
    using a o i64 by blast
  have r2: "set_commit_get_int (fst (snd example_opened)) (snd (snd example_opened)) ''mask''
        NVS_TYPE_U32 4294967295
       = Some (ESP_OK, ESP_OK, (ESP_OK, Some NVS_TYPE_U32), (ESP_OK, Some 4294967295))"
    using b o u32 by blast
  have r3: "set_commit_get_string (fst (snd example_opened)) (snd (snd example_opened)) ''hostname''
        ''funhouse''
       = (ESP_OK, ESP_OK, (ESP_OK, Some NVS_TYPE_STR), ESP_OK, (ESP_OK, Some ''funhouse'', 9))"
    using c o by simp
  have r4: "set_commit_get_blob (fst (snd example_opened)) (snd (snd example_opened)) ''cert''
        [1, 2, 255]
       = (ESP_OK, ESP_OK, (ESP_OK, Some NVS_TYPE_BLOB), ESP_OK, (ESP_OK, Some [1, 2, 255], 3))"
    using d o by simp
  show ?thesis
    using o i64(1) u32(1) r1 r2 r3 r4 by blast
qed

section \<open>Properties of erasing and committing\<close>

lemmas nvs_handle_defs =
  NvsHandle_Open_def NvsHandle_new_def nvs_open_def NvsHandle_Close_def nvs_close_def
  NvsHandle_FindKey_def nvs_find_key_def nvs_lookup_def NvsHandle_EraseKey_def nvs_erase_key_def
  NvsHandle_EraseAll_def nvs_erase_all_def nvs_restart_def find_on_fresh_handle_def Let_def

lemma commit_calls_append: "commit_calls (xs @ ys) = commit_calls xs @ commit_calls ys"
  by (induction xs rule: commit_calls.induct) simp_all

lemma delete_key_immediate:
  assumes "query_str_ok req" "query_namespace req = Some ns" "query_key req = Some key"
    and "view nvs (ns, key) \<noteq> None"
  shows "fst (App_DoConfigDeleteKey req nvs) = ESP_OK"
    and "fst (snd (App_DoConfigDeleteKey req nvs)) = [Reply ''Key Deleted'']"
    and "commit_calls (nvs_log (snd (snd (App_DoConfigDeleteKey req nvs)))) = commit_calls (nvs_log nvs)"
    and "find_on_fresh_handle (snd (snd (App_DoConfigDeleteKey req nvs))) ns key
           = (ESP_OK, (ESP_ERR_NVS_NOT_FOUND, None))"
    and "find_on_fresh_handle (nvs_restart (snd (snd (App_DoConfigDeleteKey req nvs)))) ns key
           = (ESP_OK, (ESP_ERR_NVS_NOT_FOUND, None))"
  using assms
  by (auto simp: App_DoConfigDeleteKey_def nvs_handle_defs commit_calls_append)

lemma delete_namespace_immediate:
  assumes "query_str_ok req" "query_namespace req = Some ns"
  shows "fst (App_DoConfigDeleteNameSpace req nvs) = ESP_OK"
    and "fst (snd (App_DoConfigDeleteNameSpace req nvs)) = [Reply ''Namespace Deleted'']"
    and "commit_calls (nvs_log (snd (snd (App_DoConfigDeleteNameSpace req nvs))))
           = commit_calls (nvs_log nvs)"
    and "find_on_fresh_handle (snd (snd (App_DoConfigDeleteNameSpace req nvs))) ns key
           = (ESP_OK, (ESP_ERR_NVS_NOT_FOUND, None))"
    and "find_on_fresh_handle (nvs_restart (snd (snd (App_DoConfigDeleteNameSpace req nvs)))) ns key
           = (ESP_OK, (ESP_ERR_NVS_NOT_FOUND, None))"
  using assms
  by (simp_all add: App_DoConfigDeleteNameSpace_def nvs_handle_defs commit_calls_append)

lemma erase_on_handle:
  assumes "open_handles nvs (handle h) = Some (ns, NVS_READWRITE)"
  shows "fst (NvsHandle_EraseAll h nvs) = ESP_OK"
    and "NvsHandle_FindKey h (snd (NvsHandle_EraseAll h nvs)) key = (ESP_ERR_NVS_NOT_FOUND, None)"
    and "NvsHandle_GetString h (snd (NvsHandle_EraseAll h nvs)) key buf len
           = (ESP_ERR_NVS_NOT_FOUND, buf, len)"
    and "NvsHandle_GetBlob h (snd (NvsHandle_EraseAll h nvs)) key bbuf len
           = (ESP_ERR_NVS_NOT_FOUND, bbuf, len)"
    and "NvsHandle_FindKey h (snd (NvsHandle_EraseKey h nvs key)) key = (ESP_ERR_NVS_NOT_FOUND, None)"
    and "NvsHandle_GetString h (snd (NvsHandle_EraseKey h nvs key)) key buf len
           = (ESP_ERR_NVS_NOT_FOUND, buf, len)"
    and "NvsHandle_GetBlob h (snd (NvsHandle_EraseKey h nvs key)) key bbuf len
           = (ESP_ERR_NVS_NOT_FOUND, bbuf, len)"
    and "view nvs (ns, key) \<noteq> None \<Longrightarrow> fst (NvsHandle_EraseKey h nvs key) = ESP_OK"
  using assms
  by (auto simp: nvs_handle_defs NvsHandle_GetString_def nvs_get_str_def NvsHandle_GetBlob_def
      nvs_get_blob_def)

lemma erase_get_int:
  assumes "open_handles nvs (handle h) = Some (ns, NVS_READWRITE)" and "type_range t \<noteq> None"
  shows "NvsHandle_GetInt h (snd (NvsHandle_EraseAll h nvs)) key t = (ESP_ERR_NVS_NOT_FOUND, None)"
    and "NvsHandle_GetInt h (snd (NvsHandle_EraseKey h nvs key)) key t = (ESP_ERR_NVS_NOT_FOUND, None)"
  using assms
  by (cases t; auto simp: nvs_handle_defs NvsHandle_GetInt_def nvs_get_u8_def nvs_get_i8_def
      nvs_get_u16_def nvs_get_i16_def nvs_get_u32_def nvs_get_i32_def nvs_get_u64_def
      nvs_get_i64_def)+

lemma set_needs_commit:
  assumes "open_handles nvs (handle h) = Some (ns, NVS_READWRITE)" and "ns \<in> namespaces nvs"
  shows "stored nvs (ns, key) = None \<Longrightarrow>
           find_on_fresh_handle (nvs_restart (snd (NvsHandle_SetString h nvs key s))) ns key
             = (ESP_OK, (ESP_ERR_NVS_NOT_FOUND, None))"
    and "stored nvs (ns, key) = None \<Longrightarrow>
           find_on_fresh_handle (nvs_restart (snd (NvsHandle_SetBlob h nvs key b))) ns key
             = (ESP_OK, (ESP_ERR_NVS_NOT_FOUND, None))"
    and "stored nvs (ns, key) = None \<Longrightarrow> NvsHandle_SetInt h nvs key t d = Some r \<Longrightarrow>
           find_on_fresh_handle (nvs_restart (snd r)) ns key
             = (ESP_OK, (ESP_ERR_NVS_NOT_FOUND, None))"
    and "find_on_fresh_handle
           (nvs_restart (snd (NvsHandle_Commit h (snd (NvsHandle_SetString h nvs key s))))) ns key
             = (ESP_OK, (ESP_OK, Some NVS_TYPE_STR))"
proof -
  show "stored nvs (ns, key) = None \<Longrightarrow>
           find_on_fresh_handle (nvs_restart (snd (NvsHandle_SetString h nvs key s))) ns key
             = (ESP_OK, (ESP_ERR_NVS_NOT_FOUND, None))"
    using assms by (simp add: nvs_handle_defs NvsHandle_SetString_def nvs_set_def)
  show "stored nvs (ns, key) = None \<Longrightarrow>
           find_on_fresh_handle (nvs_restart (snd (NvsHandle_SetBlob h nvs key b))) ns key
             = (ESP_OK, (ESP_ERR_NVS_NOT_FOUND, None))"
    using assms by (simp add: nvs_handle_defs NvsHandle_SetBlob_def nvs_set_def)
  show "stored nvs (ns, key) = None \<Longrightarrow> NvsHandle_SetInt h nvs key t d = Some r \<Longrightarrow>
           find_on_fresh_handle (nvs_restart (snd r)) ns key
             = (ESP_OK, (ESP_ERR_NVS_NOT_FOUND, None))"
    using assms
    by (cases t) (auto simp: nvs_handle_defs NvsHandle_SetInt_def nvs_set_def)
  show "find_on_fresh_handle
           (nvs_restart (snd (NvsHandle_Commit h (snd (NvsHandle_SetString h nvs key s))))) ns key
             = (ESP_OK, (ESP_OK, Some NVS_TYPE_STR))"
    using assms
    by (simp add: nvs_handle_defs NvsHandle_SetString_def nvs_set_def NvsHandle_Commit_def
        nvs_commit_def)
qed

text \<open>
  Claim C5. The routes that delete a key or a namespace erase without a commit: they
  answer that the deletion is done, their log shows no commit call, and a later request
  for the key finds nothing, at once and after a restart. On a handle open for writing,
  after \<^verbatim>\<open>EraseAll\<close> or \<^verbatim>\<open>EraseKey\<close> every read of the key reports that it is not found.
  A set is different: without a commit a value set under a new key is gone after a
  restart, and with the commit it is found.
\<close>

theorem erase_without_commit:
  "(query_str_ok req \<and> query_namespace req = Some ns \<longrightarrow>
      fst (App_DoConfigDeleteNameSpace req nvs) = ESP_OK
      \<and> fst (snd (App_DoConfigDeleteNameSpace req nvs)) = [Reply ''Namespace Deleted'']
      \<and> commit_calls (nvs_log (snd (snd (App_DoConfigDeleteNameSpace req nvs))))
          = commit_calls (nvs_log nvs)
      \<and> find_on_fresh_handle (snd (snd (App_DoConfigDeleteNameSpace req nvs))) ns key
          = (ESP_OK, (ESP_ERR_NVS_NOT_FOUND, None))
      \<and> find_on_fresh_handle (nvs_restart (snd (snd (App_DoConfigDeleteNameSpace req nvs)))) ns key
          = (ESP_OK, (ESP_ERR_NVS_NOT_FOUND, None)))
   \<and> (query_str_ok req \<and> query_namespace req = Some ns \<and> query_key req = Some key
        \<and> view nvs (ns, key) \<noteq> None \<longrightarrow>
      fst (App_DoConfigDeleteKey req nvs) = ESP_OK
      \<and> fst (snd (App_DoConfigDeleteKey req nvs)) = [Reply ''Key Deleted'']
      \<and> commit_calls (nvs_log (snd (snd (App_DoConfigDeleteKey req nvs)))) = commit_calls (nvs_log nvs)
      \<and> find_on_fresh_handle (snd (snd (App_DoConfigDeleteKey req nvs))) ns key
          = (ESP_OK, (ESP_ERR_NVS_NOT_FOUND, None))
      \<and> find_on_fresh_handle (nvs_restart (snd (snd (App_DoConfigDeleteKey req nvs)))) ns key
          = (ESP_OK, (ESP_ERR_NVS_NOT_FOUND, None)))
   \<and> (open_handles nvs (handle h) = Some (ns, NVS_READWRITE) \<longrightarrow>
      fst (NvsHandle_EraseAll h nvs) = ESP_OK
      \<and> NvsHandle_FindKey h (snd (NvsHandle_EraseAll h nvs)) key = (ESP_ERR_NVS_NOT_FOUND, None)
      \<and> NvsHandle_GetString h (snd (NvsHandle_EraseAll h nvs)) key buf len
          = (ESP_ERR_NVS_NOT_FOUND, buf, len)
      \<and> NvsHandle_GetBlob h (snd (NvsHandle_EraseAll h nvs)) key bbuf len
          = (ESP_ERR_NVS_NOT_FOUND, bbuf, len)
      \<and> (view nvs (ns, key) \<noteq> None \<longrightarrow> fst (NvsHandle_EraseKey h nvs key) = ESP_OK)
      \<and> NvsHandle_FindKey h (snd (NvsHandle_EraseKey h nvs key)) key = (ESP_ERR_NVS_NOT_FOUND, None)
      \<and> NvsHandle_GetString h (snd (NvsHandle_EraseKey h nvs key)) key buf len
          = (ESP_ERR_NVS_NOT_FOUND, buf, len)
      \<and> NvsHandle_GetBlob h (snd (NvsHandle_EraseKey h nvs key)) key bbuf len
          = (ESP_ERR_NVS_NOT_FOUND, bbuf, len)
      \<and> (type_range t \<noteq> None \<longrightarrow>
           NvsHandle_GetInt h (snd (NvsHandle_EraseAll h nvs)) key t = (ESP_ERR_NVS_NOT_FOUND, None)
           \<and> NvsHandle_GetInt h (snd (NvsHandle_EraseKey h nvs key)) key t
               = (ESP_ERR_NVS_NOT_FOUND, None))
      \<and> (ns \<in> namespaces nvs \<and> stored nvs (ns, key) = None \<longrightarrow>
           find_on_fresh_handle (nvs_restart (snd (NvsHandle_SetString h nvs key s))) ns key
             = (ESP_OK, (ESP_ERR_NVS_NOT_FOUND, None))
           \<and> find_on_fresh_handle (nvs_restart (snd (NvsHandle_SetBlob h nvs key b))) ns key
             = (ESP_OK, (ESP_ERR_NVS_NOT_FOUND, None))
           \<and> (NvsHandle_SetInt h nvs key t d = Some r \<longrightarrow>
                find_on_fresh_handle (nvs_restart (snd r)) ns key
                  = (ESP_OK, (ESP_ERR_NVS_NOT_FOUND, None))))
      \<and> (ns \<in> namespaces nvs \<longrightarrow>
           find_on_fresh_handle
             (nvs_restart (snd (NvsHandle_Commit h (snd (NvsHandle_SetString h nvs key s))))) ns key
             = (ESP_OK, (ESP_OK, Some NVS_TYPE_STR))))"
proof (intro conjI)
  show "query_str_ok req \<and> query_namespace req = Some ns \<longrightarrow>
      fst (App_DoConfigDeleteNameSpace req nvs) = ESP_OK
      \<and> fst (snd (App_DoConfigDeleteNameSpace req nvs)) = [Reply ''Namespace Deleted'']
      \<and> commit_calls (nvs_log (snd (snd (App_DoConfigDeleteNameSpace req nvs))))
          = commit_calls (nvs_log nvs)
      \<and> find_on_fresh_handle (snd (snd (App_DoConfigDeleteNameSpace req nvs))) ns key
          = (ESP_OK, (ESP_ERR_NVS_NOT_FOUND, None))
      \<and> find_on_fresh_handle (nvs_restart (snd (snd (App_DoConfigDeleteNameSpace req nvs)))) ns key
          = (ESP_OK, (ESP_ERR_NVS_NOT_FOUND, None))"
    by (simp add: delete_namespace_immediate)
  show "query_str_ok req \<and> query_namespace req = Some ns \<and> query_key req = Some key
        \<and> view nvs (ns, key) \<noteq> None \<longrightarrow>
      fst (App_DoConfigDeleteKey req nvs) = ESP_OK
      \<and> fst (snd (App_DoConfigDeleteKey req nvs)) = [Reply ''Key Deleted'']
      \<and> commit_calls (nvs_log (snd (snd (App_DoConfigDeleteKey req nvs)))) = commit_calls (nvs_log nvs)
      \<and> find_on_fresh_handle (snd (snd (App_DoConfigDeleteKey req nvs))) ns key
          = (ESP_OK, (ESP_ERR_NVS_NOT_FOUND, None))
      \<and> find_on_fresh_handle (nvs_restart (snd (snd (App_DoConfigDeleteKey req nvs)))) ns key
          = (ESP_OK, (ESP_ERR_NVS_NOT_FOUND, None))"
    by (simp add: delete_key_immediate)
  show "open_handles nvs (handle h) = Some (ns, NVS_READWRITE) \<longrightarrow>
      fst (NvsHandle_EraseAll h nvs) = ESP_OK
      \<and> NvsHandle_FindKey h (snd (NvsHandle_EraseAll h nvs)) key = (ESP_ERR_NVS_NOT_FOUND, None)
      \<and> NvsHandle_GetString h (snd (NvsHandle_EraseAll h nvs)) key buf len
          = (ESP_ERR_NVS_NOT_FOUND, buf, len)
      \<and> NvsHandle_GetBlob h (snd (NvsHandle_EraseAll h nvs)) key bbuf len
          = (ESP_ERR_NVS_NOT_FOUND, bbuf, len)
      \<and> (view nvs (ns, key) \<noteq> None \<longrightarrow> fst (NvsHandle_EraseKey h nvs key) = ESP_OK)
      \<and> NvsHandle_FindKey h (snd (NvsHandle_EraseKey h nvs key)) key = (ESP_ERR_NVS_NOT_FOUND, None)
      \<and> NvsHandle_GetString h (snd (NvsHandle_EraseKey h nvs key)) key buf len
          = (ESP_ERR_NVS_NOT_FOUND, buf, len)
      \<and> NvsHandle_GetBlob h (snd (NvsHandle_EraseKey h nvs key)) key bbuf len
          = (ESP_ERR_NVS_NOT_FOUND, bbuf, len)
      \<and> (type_range t \<noteq> None \<longrightarrow>
           NvsHandle_GetInt h (snd (NvsHandle_EraseAll h nvs)) key t = (ESP_ERR_NVS_NOT_FOUND, None)
           \<and> NvsHandle_GetInt h (snd (NvsHandle_EraseKey h nvs key)) key t
               = (ESP_ERR_NVS_NOT_FOUND, None))
      \<and> (ns \<in> namespaces nvs \<and> stored nvs (ns, key) = None \<longrightarrow>
           find_on_fresh_handle (nvs_restart (snd (NvsHandle_SetString h nvs key s))) ns key
             = (ESP_OK, (ESP_ERR_NVS_NOT_FOUND, None))
           \<and> find_on_fresh_handle (nvs_restart (snd (NvsHandle_SetBlob h nvs key b))) ns key
             = (ESP_OK, (ESP_ERR_NVS_NOT_FOUND, None))
           \<and> (NvsHandle_SetInt h nvs key t d = Some r \<longrightarrow>
                find_on_fresh_handle (nvs_restart (snd r)) ns key
                  = (ESP_OK, (ESP_ERR_NVS_NOT_FOUND, None))))
      \<and> (ns \<in> namespaces nvs \<longrightarrow>
           find_on_fresh_handle
             (nvs_restart (snd (NvsHandle_Commit h (snd (NvsHandle_SetString h nvs key s))))) ns key
             = (ESP_OK, (ESP_OK, Some NVS_TYPE_STR)))"
  proof
    assume o: "open_handles nvs (handle h) = Some (ns, NVS_READWRITE)"
    note e = erase_on_handle [OF o]
    note g = erase_get_int [OF o]
    note c = set_needs_commit [OF o]
    show "fst (NvsHandle_EraseAll h nvs) = ESP_OK
      \<and> NvsHandle_FindKey h (snd (NvsHandle_EraseAll h nvs)) key = (ESP_ERR_NVS_NOT_FOUND, None)
      \<and> NvsHandle_GetString h (snd (NvsHandle_EraseAll h nvs)) key buf len
          = (ESP_ERR_NVS_NOT_FOUND, buf, len)
      \<and> NvsHandle_GetBlob h (snd (NvsHandle_EraseAll h nvs)) key bbuf len
          = (ESP_ERR_NVS_NOT_FOUND, bbuf, len)
      \<and> (view nvs (ns, key) \<noteq> None \<longrightarrow> fst (NvsHandle_EraseKey h nvs key) = ESP_OK)
      \<and> NvsHandle_FindKey h (snd (NvsHandle_EraseKey h nvs key)) key = (ESP_ERR_NVS_NOT_FOUND, None)
      \<and> NvsHandle_GetString h (snd (NvsHandle_EraseKey h nvs key)) key buf len
          = (ESP_ERR_NVS_NOT_FOUND, buf, len)
      \<and> NvsHandle_GetBlob h (snd (NvsHandle_EraseKey h nvs key)) key bbuf len
          = (ESP_ERR_NVS_NOT_FOUND, bbuf, len)
      \<and> (type_range t \<noteq> None \<longrightarrow>
           NvsHandle_GetInt h (snd (NvsHandle_EraseAll h nvs)) key t = (ESP_ERR_NVS_NOT_FOUND, None)
           \<and> NvsHandle_GetInt h (snd (NvsHandle_EraseKey h nvs key)) key t
               = (ESP_ERR_NVS_NOT_FOUND, None))
      \<and> (ns \<in> namespaces nvs \<and> stored nvs (ns, key) = None \<longrightarrow>
           find_on_fresh_handle (nvs_restart (snd (NvsHandle_SetString h nvs key s))) ns key
             = (ESP_OK, (ESP_ERR_NVS_NOT_FOUND, None))
           \<and> find_on_fresh_handle (nvs_restart (snd (NvsHandle_SetBlob h nvs key b))) ns key
             = (ESP_OK, (ESP_ERR_NVS_NOT_FOUND, None))
           \<and> (NvsHandle_SetInt h nvs key t d = Some r \<longrightarrow>
                find_on_fresh_handle (nvs_restart (snd r)) ns key
                  = (ESP_OK, (ESP_ERR_NVS_NOT_FOUND, None))))
      \<and> (ns \<in> namespaces nvs \<longrightarrow>
           find_on_fresh_handle
             (nvs_restart (snd (NvsHandle_Commit h (snd (NvsHandle_SetString h nvs key s))))) ns key
             = (ESP_OK, (ESP_OK, Some NVS_TYPE_STR)))"
      by (simp add: e g c)
  qed
qed

lemma example_opened_mqtt_eq:
  "fst example_opened_mqtt = ESP_OK"
  "fst (snd example_opened_mqtt) = \<lparr>handle = 1\<rparr>"
  "open_handles (snd (snd example_opened_mqtt)) (Suc 0) = Some (''mqtt'', NVS_READWRITE)"
  "namespaces (snd (snd example_opened_mqtt)) = {''mqtt''}"
  "stored (snd (snd example_opened_mqtt)) = stored example_store"
  "view (snd (snd example_opened_mqtt)) = view example_store"
  by (simp_all add: example_opened_mqtt_def example_store_def NvsHandle_Open_def NvsHandle_new_def
      nvs_open_def Let_def)

text \<open>
  The example store: the broker address is found before the deletion and not after it; a
  port set without a commit is gone after a restart, and found when it was committed.
\<close>

theorem erase_without_commit_witness:
  "query_str_ok example_delete_request
   \<and> query_namespace example_delete_request = Some ''mqtt''
   \<and> query_key example_delete_request = Some ''broker''
   \<and> view example_store (''mqtt'', ''broker'') \<noteq> None
   \<and> find_on_fresh_handle example_store ''mqtt'' ''broker'' = (ESP_OK, (ESP_OK, Some NVS_TYPE_STR))
   \<and> find_on_fresh_handle
        (snd (snd (App_DoConfigDeleteNameSpace example_delete_request example_store)))
        ''mqtt'' ''broker'' = (ESP_OK, (ESP_ERR_NVS_NOT_FOUND, None))
   \<and> find_on_fresh_handle
        (nvs_restart (snd (snd (App_DoConfigDeleteKey example_delete_request example_store))))
        ''mqtt'' ''broker'' = (ESP_OK, (ESP_ERR_NVS_NOT_FOUND, None))
   \<and> open_handles (snd (snd example_opened_mqtt)) (handle (fst (snd example_opened_mqtt)))
        = Some (''mqtt'', NVS_READWRITE)
   \<and> ''mqtt'' \<in> namespaces (snd (snd example_opened_mqtt))
   \<and> stored (snd (snd example_opened_mqtt)) (''mqtt'', ''port'') = None
   \<and> type_range NVS_TYPE_U16 \<noteq> None
   \<and> NvsHandle_SetInt (fst (snd example_opened_mqtt)) (snd (snd example_opened_mqtt)) ''port''
        NVS_TYPE_U16 1883 \<noteq> None
   \<and> NvsHandle_GetInt (fst (snd example_opened_mqtt))
        (snd (NvsHandle_EraseAll (fst (snd example_opened_mqtt)) (snd (snd example_opened_mqtt))))
        ''port'' NVS_TYPE_U16 = (ESP_ERR_NVS_NOT_FOUND, None)
   \<and> find_on_fresh_handle
        (nvs_restart (snd (the (NvsHandle_SetInt (fst (snd example_opened_mqtt))
           (snd (snd example_opened_mqtt)) ''port'' NVS_TYPE_U16 1883))))
        ''mqtt'' ''port'' = (ESP_OK, (ESP_ERR_NVS_NOT_FOUND, None))
   \<and> find_on_fresh_handle
        (nvs_restart (snd (NvsHandle_SetString (fst (snd example_opened_mqtt))
           (snd (snd example_opened_mqtt)) ''port'' ''1883'')))
        ''mqtt'' ''port'' = (ESP_OK, (ESP_ERR_NVS_NOT_FOUND, None))
   \<and> find_on_fresh_handle
        (nvs_restart (snd (NvsHandle_Commit (fst (snd example_opened_mqtt))
           (snd (NvsHandle_SetString (fst (snd example_opened_mqtt))
              (snd (snd example_opened_mqtt)) ''port'' ''1883'')))))
        ''mqtt'' ''port'' = (ESP_OK, (ESP_OK, Some NVS_TYPE_STR))"
proof -
  have q: "query_str_ok example_delete_request"
    "query_namespace example_delete_request = Some ''mqtt''"
    "query_key example_delete_request = Some ''broker''"
    "view example_store (''mqtt'', ''broker'') \<noteq> None"
    by (simp_all add: example_delete_request_def example_store_def)
  have before: "find_on_fresh_handle example_store ''mqtt'' ''broker''
      = (ESP_OK, (ESP_OK, Some NVS_TYPE_STR))"
    by (simp add: find_on_fresh_handle_def example_store_def NvsHandle_Open_def NvsHandle_new_def
        nvs_open_def NvsHandle_FindKey_def nvs_find_key_def nvs_lookup_def Let_def)
  have o: "open_handles (snd (snd example_opened_mqtt)) (handle (fst (snd example_opened_mqtt)))
        = Some (''mqtt'', NVS_READWRITE)"
    "''mqtt'' \<in> namespaces (snd (snd example_opened_mqtt))"
    "stored (snd (snd example_opened_mqtt)) (''mqtt'', ''port'') = None"
    "type_range NVS_TYPE_U16 \<noteq> None"
    by (simp_all add: example_opened_mqtt_eq example_store_def)
  have sn: "NvsHandle_SetInt (fst (snd example_opened_mqtt)) (snd (snd example_opened_mqtt)) ''port''
        NVS_TYPE_U16 1883 \<noteq> None"
    by (simp add: NvsHandle_SetInt_def double_to_unsigned_def)
  then have ss: "NvsHandle_SetInt (fst (snd example_opened_mqtt)) (snd (snd example_opened_mqtt))
        ''port'' NVS_TYPE_U16 1883
      = Some (the (NvsHandle_SetInt (fst (snd example_opened_mqtt)) (snd (snd example_opened_mqtt))
          ''port'' NVS_TYPE_U16 1883))"
    by simp
  note a = erase_without_commit [where req = example_delete_request and nvs = example_store
      and ns = "''mqtt''" and key = "''broker''"]
  note b = erase_without_commit [where nvs = "snd (snd example_opened_mqtt)"
      and h = "fst (snd example_opened_mqtt)" and ns = "''mqtt''" and key = "''port''"
      and t = NVS_TYPE_U16 and d = 1883 and s = "''1883''"
      and r = "the (NvsHandle_SetInt (fst (snd example_opened_mqtt)) (snd (snd example_opened_mqtt))
          ''port'' NVS_TYPE_U16 1883)"]
  have r1: "find_on_fresh_handle
        (snd (snd (App_DoConfigDeleteNameSpace example_delete_request example_store)))
        ''mqtt'' ''broker'' = (ESP_OK, (ESP_ERR_NVS_NOT_FOUND, None))"
    using a q by blast
  have r2: "find_on_fresh_handle
        (nvs_restart (snd (snd (App_DoConfigDeleteKey example_delete_request example_store))))
        ''mqtt'' ''broker'' = (ESP_OK, (ESP_ERR_NVS_NOT_FOUND, None))"
    using a q by blast
  have r3: "NvsHandle_GetInt (fst (snd example_opened_mqtt))
        (snd (NvsHandle_EraseAll (fst (snd example_opened_mqtt)) (snd (snd example_opened_mqtt))))
        ''port'' NVS_TYPE_U16 = (ESP_ERR_NVS_NOT_FOUND, None)"
    using b o by blast
  have r4: "find_on_fresh_handle
        (nvs_restart (snd (the (NvsHandle_SetInt (fst (snd example_opened_mqtt))
           (snd (snd example_opened_mqtt)) ''port'' NVS_TYPE_U16 1883))))
        ''mqtt'' ''port'' = (ESP_OK, (ESP_ERR_NVS_NOT_FOUND, None))"
    using b o ss by blast
  have r5: "find_on_fresh_handle
        (nvs_restart (snd (NvsHandle_SetString (fst (snd example_opened_mqtt))
           (snd (snd example_opened_mqtt)) ''port'' ''1883'')))
        ''mqtt'' ''port'' = (ESP_OK, (ESP_ERR_NVS_NOT_FOUND, None))"
    using b o by blast
  have r6: "find_on_fresh_handle
        (nvs_restart (snd (NvsHandle_Commit (fst (snd example_opened_mqtt))
           (snd (NvsHandle_SetString (fst (snd example_opened_mqtt))
              (snd (snd example_opened_mqtt)) ''port'' ''1883'')))))
        ''mqtt'' ''port'' = (ESP_OK, (ESP_OK, Some NVS_TYPE_STR))"
    using b o by blast
  show ?thesis
    using q before o sn r1 r2 r3 r4 r5 r6 by blast
qed

end
